theory Spec2Isabelle
  imports Main "HOL-Library.AList" "HOL-Library.Product_Lexorder"
begin

section \<open>Python values, exceptions and timestamps\<close>

text \<open>
  The entities carry open mappings (\<open>Dict[str, Any]\<close>): payload, metadata, capabilities.
  Their values are modelled by the JSON-like fragment of Python's values. A dict is an
  association list in insertion order, as Python's dict iterates.
\<close>

datatype pyval =
    PNone
  | PBool bool
  | PInt int
  | PStr string
  | PList "pyval list"
  | PDict "(string \<times> pyval) list"

type_synonym pydict = "(string \<times> pyval) list"

text \<open>
  The exceptions the orchestration core raises or lets through. \<open>ValueError\<close> is what the
  guards of the entities and an enum constructor on an unknown value raise; \<open>TypeError\<close> is
  what Python raises for a call with an unexpected keyword argument, for iterating a
  non-iterable and for hashing an unhashable value; \<open>GenerationError\<close> stands for any
  exception coming out of the generation capability.
\<close>

datatype error = ValueError | TypeError | GenerationError

text \<open>
  A naive \<open>datetime\<close>, as \<open>datetime.utcnow()\<close> returns it. Every call of \<open>utcnow()\<close> and of
  \<open>uuid4()\<close> in the source is an explicit argument of the model.
\<close>

record datetime =
  year :: nat
  month :: nat
  day :: nat
  hour :: nat
  minute :: nat
  second :: nat
  microsecond :: nat

text \<open>
  \<open>datetime.isoformat()\<close> of a naive datetime: \<open>YYYY-MM-DDTHH:MM:SS\<close>, followed by
  \<open>.ffffff\<close> when the microsecond is not zero. \<open>zero_pad k n\<close> is \<open>n\<close> in \<open>k\<close> decimal digits.
\<close>

definition digit_char :: "nat \<Rightarrow> char" where
  "digit_char n = char_of (48 + n)"

fun zero_pad :: "nat \<Rightarrow> nat \<Rightarrow> string" where
  "zero_pad 0 n = []"
| "zero_pad (Suc k) n = zero_pad k (n div 10) @ [digit_char (n mod 10)]"

definition isoformat :: "datetime \<Rightarrow> string" where
  "isoformat d =
     zero_pad 4 (year d) @ ''-'' @ zero_pad 2 (month d) @ ''-'' @ zero_pad 2 (day d) @ ''T''
     @ zero_pad 2 (hour d) @ '':'' @ zero_pad 2 (minute d) @ '':'' @ zero_pad 2 (second d)
     @ (if microsecond d = 0 then [] else ''.'' @ zero_pad 6 (microsecond d))"

text \<open>The values a Python \<open>datetime\<close> can hold.\<close>

definition is_leap :: "nat \<Rightarrow> bool" where
  "is_leap y \<longleftrightarrow> y mod 4 = 0 \<and> (y mod 100 \<noteq> 0 \<or> y mod 400 = 0)"

definition days_in_month :: "nat \<Rightarrow> nat \<Rightarrow> nat" where
  "days_in_month y m =
     (if m = 2 then (if is_leap y then 29 else 28)
      else if m \<in> set [4, 6, 9, 11] then 30 else 31)"

definition valid_datetime :: "datetime \<Rightarrow> bool" where
  "valid_datetime d \<longleftrightarrow>
     1 \<le> year d \<and> year d \<le> 9999 \<and> 1 \<le> month d \<and> month d \<le> 12
     \<and> 1 \<le> day d \<and> day d \<le> days_in_month (year d) (month d)
     \<and> hour d < 24 \<and> minute d < 60 \<and> second d < 60 \<and> microsecond d < 1000000"

text \<open>
  \<open>datetime.fromisoformat\<close> on the two forms \<open>isoformat\<close> produces for a naive datetime;
  \<open>None\<close> is its \<open>ValueError\<close>. The further forms Python accepts (another separator than
  \<open>T\<close>, a date alone, shorter times, a UTC offset) are not modelled and give \<open>None\<close> here.
\<close>

definition digit_val :: "char \<Rightarrow> nat option" where
  "digit_val c =
     (let n = of_char c :: nat in if 48 \<le> n \<and> n \<le> 57 then Some (n - 48) else None)"

fun parse_digits :: "nat \<Rightarrow> string \<Rightarrow> nat option" where
  "parse_digits acc [] = Some acc"
| "parse_digits acc (c # cs) =
     (case digit_val c of None \<Rightarrow> None | Some d \<Rightarrow> parse_digits (10 * acc + d) cs)"

definition take_number :: "nat \<Rightarrow> string \<Rightarrow> (nat \<times> string) option" where
  "take_number k s =
     (if length s < k then None
      else case parse_digits 0 (take k s) of
             None \<Rightarrow> None
           | Some n \<Rightarrow> Some (n, drop k s))"

definition expect :: "char \<Rightarrow> string \<Rightarrow> string option" where
  "expect c s = (case s of [] \<Rightarrow> None | x # xs \<Rightarrow> if x = c then Some xs else None)"

definition fromisoformat :: "string \<Rightarrow> datetime option" where
  "fromisoformat s =
     Option.bind (take_number 4 s) (\<lambda>(y, s).
     Option.bind (expect CHR ''-'' s) (\<lambda>s.
     Option.bind (take_number 2 s) (\<lambda>(mo, s).
     Option.bind (expect CHR ''-'' s) (\<lambda>s.
     Option.bind (take_number 2 s) (\<lambda>(dd, s).
     Option.bind (expect CHR ''T'' s) (\<lambda>s.
     Option.bind (take_number 2 s) (\<lambda>(h, s).
     Option.bind (expect CHR '':'' s) (\<lambda>s.
     Option.bind (take_number 2 s) (\<lambda>(mi, s).
     Option.bind (expect CHR '':'' s) (\<lambda>s.
     Option.bind (take_number 2 s) (\<lambda>(se, s).
     Option.bind
       (if s = [] then Some (0, [])
        else Option.bind (expect CHR ''.'' s) (take_number 6)) (\<lambda>(us, s).
     let d = \<lparr>year = y, month = mo, day = dd, hour = h, minute = mi, second = se,
              microsecond = us\<rparr>
     in if s = [] \<and> valid_datetime d then Some d else None))))))))))))"

text \<open>Python's truth value of a value.\<close>

fun truthy :: "pyval \<Rightarrow> bool" where
  "truthy PNone = False"
| "truthy (PBool b) = b"
| "truthy (PInt i) = (i \<noteq> 0)"
| "truthy (PStr s) = (s \<noteq> [])"
| "truthy (PList xs) = (xs \<noteq> [])"
| "truthy (PDict kvs) = (kvs \<noteq> [])"

section \<open>Task (core/domain/task.py)\<close>

datatype TaskStatus =
    TaskStatus_CREATED
  | TaskStatus_ASSIGNED
  | TaskStatus_IN_PROGRESS
  | TaskStatus_COMPLETED
  | TaskStatus_FAILED
  | TaskStatus_CANCELLED

datatype TaskType =
    TaskType_LLM_GENERATION
  | TaskType_RAG_QUERY
  | TaskType_DATA_PROCESSING
  | TaskType_MULTIMODAL
  | TaskType_CUSTOM

text \<open>
  The fields of the dataclass \<open>Task\<close>; each selector carries the prefix \<open>task_\<close> since the
  entities share field names.
\<close>

record Task =
  task_id :: string
  task_type :: TaskType
  task_status :: TaskStatus
  task_payload :: pydict
  task_assigned_agent :: "string option"
  task_result :: "pydict option"
  task_error :: "string option"
  task_metadata :: pydict
  task_created_at :: datetime
  task_updated_at :: datetime
  task_started_at :: "datetime option"
  task_completed_at :: "datetime option"

text \<open>
  A method mutates the object it is called on and may raise: the model returns the
  outcome (\<open>Inl\<close> the exception) together with the object as the call leaves it.
\<close>

definition assign_to :: "string \<Rightarrow> datetime \<Rightarrow> Task \<Rightarrow> (error + unit) \<times> Task" where
  "assign_to agent_id now t =
     (if task_status t \<noteq> TaskStatus_CREATED then (Inl ValueError, t)
      else (Inr (), t\<lparr>task_assigned_agent := Some agent_id,
                       task_status := TaskStatus_ASSIGNED,
                       task_updated_at := now\<rparr>))"

definition start :: "datetime \<Rightarrow> datetime \<Rightarrow> Task \<Rightarrow> (error + unit) \<times> Task" where
  "start now1 now2 t =
     (if task_status t \<notin> set [TaskStatus_ASSIGNED, TaskStatus_CREATED] then (Inl ValueError, t)
      else (Inr (), t\<lparr>task_status := TaskStatus_IN_PROGRESS,
                       task_started_at := Some now1,
                       task_updated_at := now2\<rparr>))"

definition complete :: "pydict \<Rightarrow> datetime \<Rightarrow> datetime \<Rightarrow> Task \<Rightarrow> (error + unit) \<times> Task" where
  "complete res now1 now2 t =
     (if task_status t \<noteq> TaskStatus_IN_PROGRESS then (Inl ValueError, t)
      else (Inr (), t\<lparr>task_status := TaskStatus_COMPLETED,
                       task_result := Some res,
                       task_completed_at := Some now1,
                       task_updated_at := now2\<rparr>))"

definition fail :: "string \<Rightarrow> datetime \<Rightarrow> datetime \<Rightarrow> Task \<Rightarrow> (error + unit) \<times> Task" where
  "fail err now1 now2 t =
     (Inr (), t\<lparr>task_status := TaskStatus_FAILED,
                  task_error := Some err,
                  task_completed_at := Some now1,
                  task_updated_at := now2\<rparr>)"

definition cancel :: "datetime \<Rightarrow> datetime \<Rightarrow> Task \<Rightarrow> (error + unit) \<times> Task" where
  "cancel now1 now2 t =
     (if task_status t \<in> set [TaskStatus_COMPLETED, TaskStatus_FAILED, TaskStatus_CANCELLED]
      then (Inl ValueError, t)
      else (Inr (), t\<lparr>task_status := TaskStatus_CANCELLED,
                       task_completed_at := Some now1,
                       task_updated_at := now2\<rparr>))"

definition is_completed :: "Task \<Rightarrow> bool" where
  "is_completed t \<longleftrightarrow>
     task_status t \<in> set [TaskStatus_COMPLETED, TaskStatus_FAILED, TaskStatus_CANCELLED]"


fun TaskStatus_value :: "TaskStatus \<Rightarrow> string" where
  "TaskStatus_value TaskStatus_CREATED = ''created''"
| "TaskStatus_value TaskStatus_ASSIGNED = ''assigned''"
| "TaskStatus_value TaskStatus_IN_PROGRESS = ''in_progress''"
| "TaskStatus_value TaskStatus_COMPLETED = ''completed''"
| "TaskStatus_value TaskStatus_FAILED = ''failed''"
| "TaskStatus_value TaskStatus_CANCELLED = ''cancelled''"

fun TaskType_value :: "TaskType \<Rightarrow> string" where
  "TaskType_value TaskType_LLM_GENERATION = ''llm_generation''"
| "TaskType_value TaskType_RAG_QUERY = ''rag_query''"
| "TaskType_value TaskType_DATA_PROCESSING = ''data_processing''"
| "TaskType_value TaskType_MULTIMODAL = ''multimodal''"
| "TaskType_value TaskType_CUSTOM = ''custom''"

text \<open>
  \<open>TaskStatus(s)\<close> and \<open>TaskType(s)\<close>: the member whose value is \<open>s\<close>; \<open>None\<close> is the
  \<open>ValueError\<close> of the enum constructor.
\<close>

definition TaskStatus_of_value :: "string \<Rightarrow> TaskStatus option" where
  "TaskStatus_of_value s =
     find (\<lambda>m. TaskStatus_value m = s)
       [TaskStatus_CREATED, TaskStatus_ASSIGNED, TaskStatus_IN_PROGRESS,
        TaskStatus_COMPLETED, TaskStatus_FAILED, TaskStatus_CANCELLED]"

definition TaskType_of_value :: "string \<Rightarrow> TaskType option" where
  "TaskType_of_value s =
     find (\<lambda>m. TaskType_value m = s)
       [TaskType_LLM_GENERATION, TaskType_RAG_QUERY, TaskType_DATA_PROCESSING,
        TaskType_MULTIMODAL, TaskType_CUSTOM]"

text \<open>\<open>Task.to_dict\<close>: the twelve entries, in the order of the dict literal.\<close>

definition to_dict :: "Task \<Rightarrow> pydict" where
  "to_dict t =
     [(''id'', PStr (task_id t)),
      (''type'', PStr (TaskType_value (task_type t))),
      (''status'', PStr (TaskStatus_value (task_status t))),
      (''payload'', PDict (task_payload t)),
      (''assigned_agent'', case task_assigned_agent t of None \<Rightarrow> PNone | Some a \<Rightarrow> PStr a),
      (''result'', case task_result t of None \<Rightarrow> PNone | Some r \<Rightarrow> PDict r),
      (''error'', case task_error t of None \<Rightarrow> PNone | Some e \<Rightarrow> PStr e),
      (''metadata'', PDict (task_metadata t)),
      (''created_at'', PStr (isoformat (task_created_at t))),
      (''updated_at'', PStr (isoformat (task_updated_at t))),
      (''started_at'', case task_started_at t of None \<Rightarrow> PNone | Some d \<Rightarrow> PStr (isoformat d)),
      (''completed_at'',
         case task_completed_at t of None \<Rightarrow> PNone | Some d \<Rightarrow> PStr (isoformat d))]"

text \<open>
  \<open>Task.from_dict\<close>. Python stores whatever value the dict holds; the record has the
  types of the annotations, so a value of another type has no Task in the model and is
  reported as \<open>TypeError\<close>. \<open>and_then\<close> sequences the steps: the first exception ends the
  call.
\<close>

definition and_then :: "error + 'a \<Rightarrow> ('a \<Rightarrow> error + 'b) \<Rightarrow> error + 'b" where
  "and_then r f = (case r of Inl e \<Rightarrow> Inl e | Inr v \<Rightarrow> f v)"

fun as_str :: "pyval \<Rightarrow> error + string" where
  "as_str (PStr s) = Inr s"
| "as_str v = Inl TypeError"

fun as_dict :: "pyval \<Rightarrow> error + pydict" where
  "as_dict (PDict d) = Inr d"
| "as_dict v = Inl TypeError"

fun as_optional_str :: "pyval \<Rightarrow> error + string option" where
  "as_optional_str PNone = Inr None"
| "as_optional_str (PStr s) = Inr (Some s)"
| "as_optional_str v = Inl TypeError"

fun as_optional_dict :: "pyval \<Rightarrow> error + pydict option" where
  "as_optional_dict PNone = Inr None"
| "as_optional_dict (PDict d) = Inr (Some d)"
| "as_optional_dict v = Inl TypeError"

text \<open>\<open>datetime.fromisoformat(v)\<close>: \<open>TypeError\<close> when \<open>v\<close> is not a string.\<close>

fun parse_datetime :: "pyval \<Rightarrow> error + datetime" where
  "parse_datetime (PStr s) =
     (case fromisoformat s of None \<Rightarrow> Inl ValueError | Some d \<Rightarrow> Inr d)"
| "parse_datetime v = Inl TypeError"

text \<open>\<open>if data.get(key): ... = datetime.fromisoformat(data[key])\<close>, else \<open>None\<close>.\<close>

definition optional_datetime :: "pyval option \<Rightarrow> error + datetime option" where
  "optional_datetime r =
     (case r of
        None \<Rightarrow> Inr None
      | Some v \<Rightarrow>
          if truthy v then and_then (parse_datetime v) (\<lambda>d. Inr (Some d)) else Inr None)"

text \<open>\<open>TaskType(v)\<close> and \<open>TaskStatus(v)\<close>: \<open>ValueError\<close> unless \<open>v\<close> is the value of a member.\<close>

fun TaskType_of :: "pyval \<Rightarrow> error + TaskType" where
  "TaskType_of (PStr s) =
     (case TaskType_of_value s of None \<Rightarrow> Inl ValueError | Some m \<Rightarrow> Inr m)"
| "TaskType_of v = Inl ValueError"

fun TaskStatus_of :: "pyval \<Rightarrow> error + TaskStatus" where
  "TaskStatus_of (PStr s) =
     (case TaskStatus_of_value s of None \<Rightarrow> Inl ValueError | Some m \<Rightarrow> Inr m)"
| "TaskStatus_of v = Inl ValueError"

text \<open>\<open>data.get(key, default)\<close>.\<close>

definition get_or :: "pydict \<Rightarrow> string \<Rightarrow> pyval \<Rightarrow> pyval" where
  "get_or data key dflt = (case map_of data key of None \<Rightarrow> dflt | Some v \<Rightarrow> v)"

text \<open>
  \<open>uid\<close>, \<open>now1\<close> and \<open>now2\<close> are the values of \<open>uuid4()\<close> and of the two \<open>utcnow()\<close> calls
  that build the defaults of \<open>id\<close>, \<open>created_at\<close> and \<open>updated_at\<close>.
\<close>

definition from_dict :: "pydict \<Rightarrow> string \<Rightarrow> datetime \<Rightarrow> datetime \<Rightarrow> error + Task" where
  "from_dict data uid now1 now2 =
     and_then (optional_datetime (map_of data ''started_at'')) (\<lambda>started_at.
     and_then (optional_datetime (map_of data ''completed_at'')) (\<lambda>completed_at.
     and_then (as_str (get_or data ''id'' (PStr uid))) (\<lambda>ident.
     and_then (TaskType_of (get_or data ''type'' (PStr (TaskType_value TaskType_CUSTOM)))) (\<lambda>ty.
     and_then (TaskStatus_of
                 (get_or data ''status'' (PStr (TaskStatus_value TaskStatus_CREATED)))) (\<lambda>st.
     and_then (as_dict (get_or data ''payload'' (PDict []))) (\<lambda>payload.
     and_then (as_optional_str (get_or data ''assigned_agent'' PNone)) (\<lambda>assigned_agent.
     and_then (as_optional_dict (get_or data ''result'' PNone)) (\<lambda>res.
     and_then (as_optional_str (get_or data ''error'' PNone)) (\<lambda>err.
     and_then (as_dict (get_or data ''metadata'' (PDict []))) (\<lambda>metadata.
     and_then (parse_datetime (get_or data ''created_at'' (PStr (isoformat now1)))) (\<lambda>created_at.
     and_then (parse_datetime (get_or data ''updated_at'' (PStr (isoformat now2)))) (\<lambda>updated_at.
     Inr \<lparr>task_id = ident, task_type = ty, task_status = st, task_payload = payload,
          task_assigned_agent = assigned_agent, task_result = res, task_error = err,
          task_metadata = metadata, task_created_at = created_at,
          task_updated_at = updated_at, task_started_at = started_at,
          task_completed_at = completed_at\<rparr>))))))))))))"

section \<open>Agent (core/domain/agent.py)\<close>

datatype AgentStatus =
    AgentStatus_CREATED
  | AgentStatus_ACTIVE
  | AgentStatus_IDLE
  | AgentStatus_BUSY
  | AgentStatus_ERROR
  | AgentStatus_STOPPED

datatype AgentType =
    AgentType_LLM
  | AgentType_TASK_EXECUTOR
  | AgentType_ORCHESTRATOR
  | AgentType_RAG
  | AgentType_MULTIMODAL


record Agent =
  agent_id :: string
  agent_name :: string
  agent_type :: AgentType
  agent_status :: AgentStatus
  agent_capabilities :: pydict
  agent_metadata :: pydict
  agent_created_at :: datetime
  agent_updated_at :: datetime


text \<open>
  \<open>capability in self.capabilities\<close>. The parameter is annotated \<open>str\<close>, but the scheduler
  passes whatever the task metadata holds: a list or a dict is unhashable (\<open>TypeError\<close>),
  any other value that is not a string is no key of the mapping.
\<close>

fun has_capability :: "pyval \<Rightarrow> Agent \<Rightarrow> error + bool" where
  "has_capability (PStr c) a = Inr (map_of (agent_capabilities a) c \<noteq> None)"
| "has_capability (PList xs) a = Inl TypeError"
| "has_capability (PDict kvs) a = Inl TypeError"
| "has_capability v a = Inr False"

definition is_available :: "Agent \<Rightarrow> bool" where
  "is_available a \<longleftrightarrow> agent_status a \<in> set [AgentStatus_ACTIVE, AgentStatus_IDLE]"

section \<open>Message and Conversation (core/domain/message.py)\<close>

record Message =
  message_id :: string
  message_role :: string
  message_content :: string
  message_timestamp :: datetime
  message_metadata :: pydict
  message_conversation_id :: "string option"

record Conversation =
  conversation_id :: string
  conversation_messages :: "Message list"
  conversation_context :: pydict
  conversation_created_at :: datetime
  conversation_updated_at :: datetime

text \<open>
  \<open>add_message\<close> mutates the message (its conversation reference) and the conversation;
  the model returns both.
\<close>

definition add_message :: "Message \<Rightarrow> datetime \<Rightarrow> Conversation \<Rightarrow> Message \<times> Conversation" where
  "add_message m now c =
     (let m' = m\<lparr>message_conversation_id := Some (conversation_id c)\<rparr>
      in (m', c\<lparr>conversation_messages := conversation_messages c @ [m'],
                 conversation_updated_at := now\<rparr>))"

text \<open>
  The \<open>__init__\<close> a dataclass generates accepts its fields as keywords and raises
  \<open>TypeError\<close> on any other keyword, before any default factory runs. \<open>obj\<close> is the object
  the call builds when every keyword is a field.
\<close>

definition dataclass_init :: "string list \<Rightarrow> string list \<Rightarrow> 'a \<Rightarrow> error + 'a" where
  "dataclass_init field_names keywords obj =
     (if list_all (\<lambda>k. k \<in> set field_names) keywords then Inr obj else Inl TypeError)"

definition Conversation_fields :: "string list" where
  "Conversation_fields = [''id'', ''messages'', ''context'', ''created_at'', ''updated_at'']"

section \<open>Domain events (core/domain/events.py)\<close>

text \<open>
  The records the event classes describe: one constructor per class, with the fields the
  class adds to \<open>DomainEvent\<close>. The base fields \<open>event_id\<close> (a fresh uuid) and
  \<open>occurred_at\<close> (the clock) are left out; \<open>aggregate_id\<close> and \<open>metadata\<close> are copies of the
  fields kept here. The event bus takes such a record as an opaque object and reads its
  \<open>event_type\<close> only.

  As events.py is written, none of these classes can be instantiated: see \<open>new_event\<close>
  below, which is what the services' constructor calls are in the model.
\<close>

datatype DomainEvent =
    AgentCreated string string string pydict
  | AgentStatusChanged string string string "string option"
  | LLMRequestInitiated string string "string option" pydict
  | LLMResponseReceived string string "int option" "string option"
  | LLMErrorOccurred string string "string option"
  | TaskCreated string string pydict
  | TaskAssigned string string
  | TaskCompleted string pydict
  | TaskFailed string string "string option"
  | MessageReceived string string string "string option"
  | MessageProcessed string "string option"

fun event_type :: "DomainEvent \<Rightarrow> string" where
  "event_type (AgentCreated _ _ _ _) = ''AgentCreated''"
| "event_type (AgentStatusChanged _ _ _ _) = ''AgentStatusChanged''"
| "event_type (LLMRequestInitiated _ _ _ _) = ''LLMRequestInitiated''"
| "event_type (LLMResponseReceived _ _ _ _) = ''LLMResponseReceived''"
| "event_type (LLMErrorOccurred _ _ _) = ''LLMErrorOccurred''"
| "event_type (TaskCreated _ _ _) = ''TaskCreated''"
| "event_type (TaskAssigned _ _) = ''TaskAssigned''"
| "event_type (TaskCompleted _ _) = ''TaskCompleted''"
| "event_type (TaskFailed _ _ _) = ''TaskFailed''"
| "event_type (MessageReceived _ _ _ _) = ''MessageReceived''"
| "event_type (MessageProcessed _ _) = ''MessageProcessed''"

text \<open>
  The fields of a dataclass as \<open>@dataclass\<close> sees them: the name, whether the field is a
  parameter of \<open>__init__\<close>, and whether it has a default (or a default factory).
\<close>

record DataclassField =
  field_name :: string
  field_init :: bool
  field_default :: bool

definition required :: "string \<Rightarrow> DataclassField" where
  "required n = \<lparr>field_name = n, field_init = True, field_default = False\<rparr>"

definition defaulted :: "string \<Rightarrow> DataclassField" where
  "defaulted n = \<lparr>field_name = n, field_init = True, field_default = True\<rparr>"

text \<open>
  The check \<open>@dataclass\<close> makes when it builds \<open>__init__\<close> from the fields of the base
  classes followed by the class's own: a parameter without a default after one with a
  default is a \<open>TypeError\<close> (\<open>non-default argument ... follows default argument\<close>). The
  result is the name of the first such field.
\<close>

fun non_default_after_default :: "bool \<Rightarrow> DataclassField list \<Rightarrow> string option" where
  "non_default_after_default seen_default [] = None"
| "non_default_after_default seen_default (f # fs) =
     (if \<not> field_init f then non_default_after_default seen_default fs
      else if field_default f then non_default_after_default True fs
      else if seen_default then Some (field_name f)
      else non_default_after_default seen_default fs)"

text \<open>The fields of \<open>DomainEvent\<close>, and the fields each event class declares, in order.\<close>

definition DomainEvent_fields :: "DataclassField list" where
  "DomainEvent_fields =
     [defaulted ''event_id'',
      \<lparr>field_name = ''event_type'', field_init = False, field_default = False\<rparr>,
      defaulted ''occurred_at'', defaulted ''aggregate_id'', defaulted ''metadata'']"

fun event_class_fields :: "DomainEvent \<Rightarrow> DataclassField list" where
  "event_class_fields (AgentCreated _ _ _ _) =
     [required ''agent_id'', required ''agent_name'', required ''agent_type'',
      defaulted ''capabilities'']"
| "event_class_fields (AgentStatusChanged _ _ _ _) =
     [required ''agent_id'', required ''old_status'', required ''new_status'',
      defaulted ''reason'']"
| "event_class_fields (LLMRequestInitiated _ _ _ _) =
     [required ''request_id'', required ''prompt'', defaulted ''model'',
      defaulted ''parameters'']"
| "event_class_fields (LLMResponseReceived _ _ _ _) =
     [required ''request_id'', required ''response_content'', defaulted ''tokens_used'',
      defaulted ''model'']"
| "event_class_fields (LLMErrorOccurred _ _ _) =
     [required ''request_id'', required ''error_message'', defaulted ''error_type'']"
| "event_class_fields (TaskCreated _ _ _) =
     [required ''task_id'', required ''task_type'', defaulted ''payload'']"
| "event_class_fields (TaskAssigned _ _) = [required ''task_id'', required ''agent_id'']"
| "event_class_fields (TaskCompleted _ _) = [required ''task_id'', defaulted ''result'']"
| "event_class_fields (TaskFailed _ _ _) =
     [required ''task_id'', required ''error_message'', defaulted ''error_type'']"
| "event_class_fields (MessageReceived _ _ _ _) =
     [required ''message_id'', required ''role'', required ''content'',
      defaulted ''conversation_id'']"
| "event_class_fields (MessageProcessed _ _) =
     [required ''message_id'', defaulted ''response'']"

text \<open>
  Building an event in a service (\<open>event = TaskCreated(task_id=..., ...)\<close> and the like).
  Every event class puts required fields after the defaulted fields it inherits, so
  \<open>@dataclass\<close> raises \<open>TypeError\<close> for the class and there is no instance to hand to the
  bus. Python raises this error when the class statement runs; the model raises it at the
  place where a service builds the event, and computes it from the declared fields.
  \<open>new_event_error\<close> is the text of the exception.
\<close>

definition new_event :: "DomainEvent \<Rightarrow> error + DomainEvent" where
  "new_event ev =
     (case non_default_after_default False (DomainEvent_fields @ event_class_fields ev) of
        None \<Rightarrow> Inr ev
      | Some _ \<Rightarrow> Inl TypeError)"

definition new_event_error :: "DomainEvent \<Rightarrow> string" where
  "new_event_error ev =
     (case non_default_after_default False (DomainEvent_fields @ event_class_fields ev) of
        None \<Rightarrow> []
      | Some n \<Rightarrow>
          ''non-default argument '' @ [CHR 0x27] @ n @ [CHR 0x27]
            @ '' follows default argument'')"

section \<open>EventBus (core/domain/event_bus.py)\<close>

text \<open>
  A handler is a callable; the model keeps what the bus can observe of it: a name (its
  identity), whether a call of it raises an exception, and whether it is a coroutine
  function whose call suspends (awaits something that is not ready) before it finishes.
\<close>

record Handler =
  handler_name :: string
  handler_raises :: bool
  handler_suspends :: bool

datatype Dispatch = Immediate | Deferred

text \<open>
  An asyncio task that runs \<open>_process_event_queue\<close>: created and not yet run; suspended in
  \<open>await self._event_queue.get()\<close>; suspended in \<open>await handler(event)\<close> for the handler
  at the given index of the event's handler list; or finished.
\<close>

datatype Consumer = Created | Waiting | InHandler DomainEvent nat | Finished

text \<open>
  The fields of the class (\<open>unfinished_tasks\<close> is the counter of the \<open>asyncio.Queue\<close>:
  \<open>put\<close> increments it, \<open>task_done\<close> decrements it, \<open>join\<close> waits until it is zero;
  \<open>processing_task\<close> is the index of the task in \<open>consumers\<close>), the tasks that
  \<open>asyncio.create_task\<close> has created, in creation order, and what the handlers and the
  logger have seen: every handler invocation in the order it began, and the number of
  handler exceptions logged.
\<close>

record EventBus =
  handlers :: "(string \<times> Handler list) list"
  async_handlers :: "(string \<times> Handler list) list"
  event_queue :: "DomainEvent list"
  unfinished_tasks :: nat
  processing :: bool
  processing_task :: "nat option"
  consumers :: "Consumer list"
  calls :: "(Dispatch \<times> string \<times> DomainEvent) list"
  errors_logged :: nat

definition EventBus_init :: EventBus where
  "EventBus_init =
     \<lparr>handlers = [], async_handlers = [], event_queue = [], unfinished_tasks = 0,
      processing = False, processing_task = None, consumers = [], calls = [],
      errors_logged = 0\<rparr>"

text \<open>A handler is invoked; when its call ends, an exception it raised is caught and logged.\<close>

definition begin_call :: "Dispatch \<Rightarrow> Handler \<Rightarrow> DomainEvent \<Rightarrow> EventBus \<Rightarrow> EventBus" where
  "begin_call mode h e b = b\<lparr>calls := calls b @ [(mode, handler_name h, e)]\<rparr>"

definition end_call :: "Handler \<Rightarrow> EventBus \<Rightarrow> EventBus" where
  "end_call h b = (if handler_raises h then b\<lparr>errors_logged := Suc (errors_logged b)\<rparr> else b)"

text \<open>
  \<open>publish\<close>: the immediate handlers in registration order, then the enqueue when the
  event type has a deferred registration. The handlers' exceptions are caught, so the
  call always returns. The call is one step of the model: its immediate handlers run to
  completion.
\<close>

fun run_immediate :: "DomainEvent \<Rightarrow> Handler list \<Rightarrow> EventBus \<Rightarrow> EventBus" where
  "run_immediate e [] b = b"
| "run_immediate e (h # hs) b = run_immediate e hs (end_call h (begin_call Immediate h e b))"

definition publish :: "DomainEvent \<Rightarrow> EventBus \<Rightarrow> EventBus" where
  "publish e b =
     (let b1 = (case map_of (handlers b) (event_type e) of
                  None \<Rightarrow> b
                | Some hs \<Rightarrow> run_immediate e hs b)
      in case map_of (async_handlers b1) (event_type e) of
           None \<Rightarrow> b1
         | Some _ \<Rightarrow> b1\<lparr>event_queue := event_queue b1 @ [e],
                         unfinished_tasks := Suc (unfinished_tasks b1)\<rparr>)"

text \<open>
  \<open>subscribe\<close>. The registries are \<open>defaultdict(list)\<close>. When the registration is deferred
  and \<open>_processing\<close> is still false, a new task is created and stored in
  \<open>_processing_task\<close>; \<open>_processing\<close> itself is only set by the task, once it runs.
\<close>

definition registered :: "(string \<times> Handler list) list \<Rightarrow> string \<Rightarrow> Handler list" where
  "registered reg ty = (case map_of reg ty of None \<Rightarrow> [] | Some hs \<Rightarrow> hs)"

definition subscribe :: "string \<Rightarrow> Handler \<Rightarrow> bool \<Rightarrow> EventBus \<Rightarrow> EventBus" where
  "subscribe ty h async_processing b =
     (let b1 = (if async_processing
                then b\<lparr>async_handlers :=
                        AList.update ty (registered (async_handlers b) ty @ [h]) (async_handlers b)\<rparr>
                else b\<lparr>handlers :=
                        AList.update ty (registered (handlers b) ty @ [h]) (handlers b)\<rparr>)
      in if async_processing \<and> \<not> processing b1
         then b1\<lparr>processing_task := Some (length (consumers b1)),
                 consumers := consumers b1 @ [Created]\<rparr>
         else b1)"

definition unsubscribe :: "string \<Rightarrow> Handler \<Rightarrow> EventBus \<Rightarrow> EventBus" where
  "unsubscribe ty h b =
     b\<lparr>handlers := AList.update ty (remove1 h (registered (handlers b) ty)) (handlers b),
       async_handlers :=
         AList.update ty (remove1 h (registered (async_handlers b) ty)) (async_handlers b)\<rparr>"

text \<open>
  The loop over the deferred handlers of one event, from index \<open>k\<close> of the list on: each
  handler is invoked; at a handler that suspends the task is suspended too (\<open>Some\<close> its
  index), otherwise the loop goes on and ends with \<open>None\<close>.
\<close>

fun run_deferred :: "DomainEvent \<Rightarrow> Handler list \<Rightarrow> nat \<Rightarrow> EventBus \<Rightarrow> nat option \<times> EventBus" where
  "run_deferred e [] k b = (None, b)"
| "run_deferred e (h # hs) k b =
     (let b1 = begin_call Deferred h e b
      in if handler_suspends h then (Some k, b1)
         else run_deferred e hs (Suc k) (end_call h b1))"

text \<open>
  The \<open>while True\<close> loop of \<open>_process_event_queue\<close>, run until the task suspends: with an
  empty queue in \<open>get()\<close>, otherwise inside a handler. The first argument is the content of
  the queue.
\<close>

fun consume_queue :: "DomainEvent list \<Rightarrow> EventBus \<Rightarrow> Consumer \<times> EventBus" where
  "consume_queue [] b = (Waiting, b)"
| "consume_queue (e # q) b =
     (case run_deferred e (registered (async_handlers b) (event_type e)) 0
             (b\<lparr>event_queue := q\<rparr>) of
        (Some k, b1) \<Rightarrow> (InHandler e k, b1)
      | (None, b1) \<Rightarrow> consume_queue q (b1\<lparr>unfinished_tasks := unfinished_tasks b1 - 1\<rparr>))"

text \<open>
  The event loop resumes task \<open>i\<close> and runs it until it suspends again. A task that was
  created starts by setting \<open>_processing\<close>; a task inside a handler sees that handler's call
  end and goes on with the rest of the list, then with the queue.
\<close>

definition resume :: "nat \<Rightarrow> EventBus \<Rightarrow> EventBus" where
  "resume i b =
     (if length (consumers b) \<le> i then b
      else
        let (c, b') =
              (case consumers b ! i of
                 Created \<Rightarrow> consume_queue (event_queue b) (b\<lparr>processing := True\<rparr>)
               | Waiting \<Rightarrow> consume_queue (event_queue b) b
               | InHandler e k \<Rightarrow>
                   (let hs = registered (async_handlers b) (event_type e);
                        b1 = (if k < length hs then end_call (hs ! k) b else b)
                    in case run_deferred e (drop (Suc k) hs) (Suc k) b1 of
                         (Some j, b2) \<Rightarrow> (InHandler e j, b2)
                       | (None, b2) \<Rightarrow>
                           consume_queue (event_queue b2)
                             (b2\<lparr>unfinished_tasks := unfinished_tasks b2 - 1\<rparr>))
               | Finished \<Rightarrow> (Finished, b))
        in b'\<lparr>consumers := (consumers b')[i := c]\<rparr>)"

text \<open>
  \<open>stop\<close>. Without \<open>_processing\<close> it returns at once. Otherwise it cancels the task in
  \<open>_processing_task\<close> and awaits it: \<open>CancelledError\<close> is raised in the task where it is
  suspended, is no \<open>Exception\<close> for the handler loop, and ends the \<open>while\<close> loop. Then the
  call returns when the queue is empty, and otherwise waits in \<open>join()\<close> until
  \<open>unfinished_tasks\<close> is zero.
\<close>

datatype StopOutcome = Returned | WaitingInJoin

definition stop :: "EventBus \<Rightarrow> StopOutcome \<times> EventBus" where
  "stop b =
     (if \<not> processing b then (Returned, b)
      else
        let b1 = b\<lparr>processing := False\<rparr>;
            b2 = (case processing_task b1 of
                    None \<Rightarrow> b1
                  | Some i \<Rightarrow>
                      if i < length (consumers b1) \<and> consumers b1 ! i \<noteq> Finished
                      then b1\<lparr>consumers := (consumers b1)[i := Finished]\<rparr>
                      else b1)
        in if event_queue b2 \<noteq> [] then (WaitingInJoin, b2) else (Returned, b2))"

text \<open>A schedule: the calls made on the bus and the tasks the event loop resumes, in order.\<close>

datatype Action =
    Subscribe string Handler bool
  | Publish DomainEvent
  | Resume nat

fun act :: "Action \<Rightarrow> EventBus \<Rightarrow> EventBus" where
  "act (Subscribe ty h async_processing) b = subscribe ty h async_processing b"
| "act (Publish e) b = publish e b"
| "act (Resume i) b = resume i b"

definition run :: "Action list \<Rightarrow> EventBus \<Rightarrow> EventBus" where
  "run acts b = fold act acts b"

text \<open>
  What is read off a run: the deferred invocations (handler name and event) in the order
  they began, the events published, and the invocations that delivering a list of events
  to the registered deferred handlers amounts to. \<open>no_suspension\<close>: no registered deferred
  handler suspends. \<open>idle\<close>: the task is not inside a handler. \<open>no_subscribe\<close>: the schedule
  only publishes and resumes.
\<close>

definition deferred_calls :: "EventBus \<Rightarrow> (string \<times> DomainEvent) list" where
  "deferred_calls b = map snd (filter (\<lambda>c. fst c = Deferred) (calls b))"

definition deliveries :: "(string \<times> Handler list) list \<Rightarrow> DomainEvent list \<Rightarrow> (string \<times> DomainEvent) list" where
  "deliveries reg es =
     concat (map (\<lambda>e. map (\<lambda>h. (handler_name h, e)) (registered reg (event_type e))) es)"

definition no_suspension :: "(string \<times> Handler list) list \<Rightarrow> bool" where
  "no_suspension reg \<longleftrightarrow> (\<forall>ty. \<forall>h \<in> set (registered reg ty). \<not> handler_suspends h)"

definition idle :: "Consumer \<Rightarrow> bool" where
  "idle c \<longleftrightarrow> (case c of InHandler _ _ \<Rightarrow> False | _ \<Rightarrow> True)"

definition published :: "Action list \<Rightarrow> DomainEvent list" where
  "published acts = concat (map (\<lambda>a. case a of Publish e \<Rightarrow> [e] | _ \<Rightarrow> []) acts)"

definition no_subscribe :: "Action list \<Rightarrow> bool" where
  "no_subscribe acts \<longleftrightarrow> list_all (\<lambda>a. case a of Subscribe _ _ _ \<Rightarrow> False | _ \<Rightarrow> True) acts"

section \<open>The services' shared state\<close>

text \<open>
  \<open>LLMResponse\<close> of core/ports/llm.py, and the generation client: an external capability,
  a function of the prompt and the context (role, content and timestamp of each message)
  that returns a response or raises; a raised exception is given by its type name and its
  text.
\<close>

record LLMResponse =
  response_content :: string
  response_metadata :: "pydict option"
  response_tokens_used :: "int option"
  response_model :: "string option"

type_synonym llm_client =
  "string \<Rightarrow> (string \<times> string \<times> datetime) list \<Rightarrow> (string \<times> string) + LLMResponse"

text \<open>
  The objects \<open>init_dependencies\<close> wires together. The in-memory repositories are dicts
  keyed by id, in insertion order. \<open>event_bus\<close> is \<open>None\<close> when the services were built
  without an event bus (the constructors' default); otherwise it holds the events handed
  to \<open>publish\<close> so far, oldest first. \<open>agent_orchestrator\<close> says whether the scheduler was
  given an orchestrator; \<open>llm_client\<close> is \<open>None\<close> when there is no \<open>LLMService\<close>.

  The repositories hand out the stored objects themselves, so a mutation of a loaded
  entity is already visible in the repository: the model writes the mutated entity back
  under the key it was loaded from, and then performs the repository call the source makes.
\<close>

record World =
  agents :: "(string \<times> Agent) list"
  tasks :: "(string \<times> Task) list"
  messages :: "(string \<times> Message) list"
  conversations :: "(string \<times> Conversation) list"
  event_bus :: "DomainEvent list option"
  agent_orchestrator :: bool
  llm_client :: "llm_client option"

text \<open>
  \<open>_publish_event(event)\<close>: the event is handed to the bus, if there is one;
  whatever \<open>publish\<close> raises is swallowed.
\<close>

definition publish_event :: "DomainEvent \<Rightarrow> World \<Rightarrow> World" where
  "publish_event ev w = w\<lparr>event_bus := map_option (\<lambda>trace. trace @ [ev]) (event_bus w)\<rparr>"

text \<open>
  \<open>if self.event_bus: event = ...; await self._publish_event(event)\<close>, the form every
  service uses: without a bus nothing is built and nothing happens; with a bus the event
  is built first, and the exception of that step is the outcome.
\<close>

definition publish_new :: "DomainEvent \<Rightarrow> World \<Rightarrow> (error + unit) \<times> World" where
  "publish_new ev w =
     (case event_bus w of
        None \<Rightarrow> (Inr (), w)
      | Some _ \<Rightarrow>
          (case new_event ev of
             Inl e \<Rightarrow> (Inl e, w)
           | Inr event \<Rightarrow> (Inr (), publish_event event w)))"

section \<open>AgentOrchestrator (core/services/agent_orchestrator.py)\<close>

text \<open>\<open>InMemoryAgentRepository.get_available\<close>: the ACTIVE and IDLE agents in dict order.\<close>

definition get_available :: "(string \<times> Agent) list \<Rightarrow> Agent list" where
  "get_available ags =
     filter (\<lambda>a. agent_status a \<in> set [AgentStatus_ACTIVE, AgentStatus_IDLE]) (map snd ags)"

text \<open>The elements a \<open>for\<close> loop over a value visits.\<close>

fun py_iter :: "pyval \<Rightarrow> error + pyval list" where
  "py_iter (PList xs) = Inr xs"
| "py_iter (PStr s) = Inr (map (\<lambda>c. PStr [c]) s)"
| "py_iter (PDict kvs) = Inr (map (\<lambda>kv. PStr (fst kv)) kvs)"
| "py_iter v = Inl TypeError"

text \<open>\<open>all(agent.has_capability(cap) for cap in required_capabilities)\<close>, left to right.\<close>

fun has_all_capabilities :: "Agent \<Rightarrow> pyval list \<Rightarrow> error + bool" where
  "has_all_capabilities a [] = Inr True"
| "has_all_capabilities a (c # cs) =
     (case has_capability c a of
        Inl e \<Rightarrow> Inl e
      | Inr ok \<Rightarrow> if ok then has_all_capabilities a cs else Inr False)"

text \<open>The loop over the available agents: the first one that has every capability.\<close>

fun first_capable :: "pyval list \<Rightarrow> Agent list \<Rightarrow> error + Agent option" where
  "first_capable caps [] = Inr None"
| "first_capable caps (a # as) =
     (case has_all_capabilities a caps of
        Inl e \<Rightarrow> Inl e
      | Inr ok \<Rightarrow> if ok then Inr (Some a) else first_capable caps as)"

definition find_available_agent :: "pyval \<Rightarrow> World \<Rightarrow> error + Agent option" where
  "find_available_agent required_capabilities w =
     (let available_agents = get_available (agents w)
      in if available_agents = [] then Inr None
         else if truthy required_capabilities then
           (case py_iter required_capabilities of
              Inl e \<Rightarrow> Inl e
            | Inr caps \<Rightarrow> first_capable caps available_agents)
         else Inr (case available_agents of [] \<Rightarrow> None | a # _ \<Rightarrow> Some a))"


text \<open>
  \<open>assign_task_to_agent(task, agent_id)\<close>: \<open>tid\<close> is the key under which the task object
  passed in is stored in the task repository, \<open>task\<close> its state at the call.
\<close>

definition assign_task_to_agent ::
  "string \<Rightarrow> Task \<Rightarrow> string \<Rightarrow> datetime \<Rightarrow> World \<Rightarrow> (error + Task) \<times> World" where
  "assign_task_to_agent tid task aid now w =
     (case map_of (agents w) aid of
        None \<Rightarrow> (Inl ValueError, w)
      | Some agent \<Rightarrow>
          if \<not> is_available agent then (Inl ValueError, w)
          else
            (case assign_to aid now task of
               (Inl e, _) \<Rightarrow> (Inl e, w)
             | (Inr _, task') \<Rightarrow>
                 let w1 = w\<lparr>tasks := AList.update tid task' (tasks w)\<rparr>
                 in if map_of (tasks w1) (task_id task') = None then (Inl ValueError, w1)
                    else (Inr task',
                          w1\<lparr>tasks := AList.update (task_id task') task' (tasks w1)\<rparr>)))"

section \<open>TaskScheduler (core/services/task_scheduler.py)\<close>

text \<open>
  \<open>schedule_task\<close>. An exception of \<open>find_available_agent\<close> is raised outside the \<open>try\<close> and
  propagates; one of the assignment is caught and the task object is returned as it then
  is; one of building the TaskAssigned event is caught too, after the assignment, and the
  assigned task is returned. Without an orchestrator no agent is ever found, so the
  source's branch that assigns without an orchestrator is never taken.
\<close>

definition schedule_task :: "string \<Rightarrow> datetime \<Rightarrow> World \<Rightarrow> (error + Task option) \<times> World" where
  "schedule_task tid now w =
     (case map_of (tasks w) tid of
        None \<Rightarrow> (Inr None, w)
      | Some task \<Rightarrow>
          if task_status task \<noteq> TaskStatus_CREATED then (Inr (Some task), w)
          else
            let required_capabilities =
                  (case map_of (task_metadata task) ''required_capabilities'' of
                     None \<Rightarrow> PNone | Some v \<Rightarrow> v)
            in (case (if agent_orchestrator w then find_available_agent required_capabilities w
                      else Inr None) of
                  Inl e \<Rightarrow> (Inl e, w)
                | Inr None \<Rightarrow> (Inr (Some task), w)
                | Inr (Some agent) \<Rightarrow>
                    (case assign_task_to_agent tid task (agent_id agent) now w of
                       (Inl e, w') \<Rightarrow> (Inr (map_of (tasks w') tid), w')
                     | (Inr task', w') \<Rightarrow>
                         (Inr (Some task'),
                          snd (publish_new (TaskAssigned (task_id task') (agent_id agent)) w')))))"

text \<open>
  The Task that \<open>create_task\<close> constructs: CREATED, with the priority folded into the
  metadata (\<open>{**(metadata or {}), "priority": priority}\<close>). \<open>uid\<close>, \<open>now_created\<close> and
  \<open>now_updated\<close> are what the default factories of the dataclass return.
\<close>

definition new_task ::
  "TaskType \<Rightarrow> pydict \<Rightarrow> int \<Rightarrow> pydict option \<Rightarrow> string \<Rightarrow> datetime \<Rightarrow> datetime \<Rightarrow> Task" where
  "new_task tt payload priority metadata uid now_created now_updated =
     \<lparr>task_id = uid, task_type = tt, task_status = TaskStatus_CREATED,
      task_payload = payload, task_assigned_agent = None, task_result = None,
      task_error = None,
      task_metadata =
        AList.update ''priority'' (PInt priority) (case metadata of None \<Rightarrow> [] | Some m \<Rightarrow> m),
      task_created_at = now_created, task_updated_at = now_updated,
      task_started_at = None, task_completed_at = None\<rparr>"

text \<open>
  \<open>create_task\<close>. \<open>now_assigned\<close> is the clock read of a successful assignment. The task
  returned is the object created, as scheduling leaves it.
\<close>

definition create_task ::
  "string \<Rightarrow> pydict \<Rightarrow> int \<Rightarrow> pydict option \<Rightarrow> string \<Rightarrow> datetime \<Rightarrow> datetime \<Rightarrow> datetime
     \<Rightarrow> World \<Rightarrow> (error + Task) \<times> World" where
  "create_task ty payload priority metadata uid now_created now_updated now_assigned w =
     (case TaskType_of_value ty of
        None \<Rightarrow> (Inl ValueError, w)
      | Some tt \<Rightarrow>
          let task = new_task tt payload priority metadata uid now_created now_updated;
              w1 = w\<lparr>tasks := AList.update (task_id task) task (tasks w)\<rparr>
          in case publish_new
                    (TaskCreated (task_id task) (TaskType_value (task_type task))
                       (task_payload task)) w1 of
               (Inl e, w2) \<Rightarrow> (Inl e, w2)
             | (Inr _, w2) \<Rightarrow>
                 if agent_orchestrator w2 then
                   (case schedule_task (task_id task) now_assigned w2 of
                      (Inl e, w3) \<Rightarrow> (Inl e, w3)
                    | (Inr _, w3) \<Rightarrow>
                        (Inr (case map_of (tasks w3) (task_id task) of
                                Some t \<Rightarrow> t | None \<Rightarrow> task), w3))
                 else (Inr task, w2))"

section \<open>LLMService and MessageProcessor (core/services)\<close>

text \<open>
  \<open>LLMService.generate(prompt, context)\<close> as the message processor calls it (no stream, no
  keyword options). \<open>rid\<close> is the request id, which the source derives from \<open>id(prompt)\<close>.
  The service was built with the same event bus as the other services. Whatever is raised
  inside the \<open>try\<close> (by the client, or by building one of the two notifications) reaches
  the handler, which reports it as LLMErrorOccurred and raises it again; an exception of
  building that event replaces it.
\<close>

definition generate_failed ::
  "string \<Rightarrow> string \<Rightarrow> string \<Rightarrow> error \<Rightarrow> World \<Rightarrow> (error + LLMResponse) \<times> World" where
  "generate_failed rid error_type error_message e w =
     (case publish_new (LLMErrorOccurred rid error_message (Some error_type)) w of
        (Inl e', w1) \<Rightarrow> (Inl e', w1)
      | (Inr _, w1) \<Rightarrow> (Inl e, w1))"

definition LLMService_generate ::
  "llm_client \<Rightarrow> string \<Rightarrow> string \<Rightarrow> (string \<times> string \<times> datetime) list \<Rightarrow> World
     \<Rightarrow> (error + LLMResponse) \<times> World" where
  "LLMService_generate client rid prompt context w =
     (let initiated = LLMRequestInitiated rid prompt None []
      in case publish_new initiated w of
           (Inl e, w1) \<Rightarrow> generate_failed rid ''TypeError'' (new_event_error initiated) e w1
         | (Inr _, w1) \<Rightarrow>
             (case client prompt context of
                Inl (error_type, error_message) \<Rightarrow>
                  generate_failed rid error_type error_message GenerationError w1
              | Inr response \<Rightarrow>
                  let received =
                        LLMResponseReceived rid (response_content response)
                          (response_tokens_used response) (response_model response)
                  in case publish_new received w1 of
                       (Inl e, w2) \<Rightarrow>
                         generate_failed rid ''TypeError'' (new_event_error received) e w2
                     | (Inr _, w2) \<Rightarrow> (Inr response, w2)))"

text \<open>\<open>InMemoryMessageRepository\<close>. The sort by timestamp is stable, as Python's is.\<close>

definition datetime_key :: "datetime \<Rightarrow> nat \<times> nat \<times> nat \<times> nat \<times> nat \<times> nat \<times> nat" where
  "datetime_key d = (year d, month d, day d, hour d, minute d, second d, microsecond d)"

definition get_conversation_messages :: "string \<Rightarrow> nat \<Rightarrow> nat \<Rightarrow> World \<Rightarrow> Message list" where
  "get_conversation_messages cid skip limit w =
     take limit (drop skip
       (sort_key (\<lambda>m. datetime_key (message_timestamp m))
          (filter (\<lambda>m. message_conversation_id m = Some cid) (map snd (messages w)))))"

definition create_message :: "Message \<Rightarrow> World \<Rightarrow> World" where
  "create_message m w = w\<lparr>messages := AList.update (message_id m) m (messages w)\<rparr>"

definition create_conversation :: "Conversation \<Rightarrow> World \<Rightarrow> World" where
  "create_conversation c w =
     w\<lparr>conversations := AList.update (conversation_id c) c (conversations w)\<rparr>"

definition add_message_to_conversation ::
  "string \<Rightarrow> Message \<Rightarrow> datetime \<Rightarrow> World \<Rightarrow> (error + Message) \<times> World" where
  "add_message_to_conversation cid m now w =
     (case map_of (conversations w) cid of
        None \<Rightarrow> (Inl ValueError, w)
      | Some c \<Rightarrow>
          (case add_message m now c of
             (m', c') \<Rightarrow>
               (Inr m',
                create_message m' (w\<lparr>conversations := AList.update cid c' (conversations w)\<rparr>))))"

text \<open>
  The values \<open>process_message\<close> draws from \<open>uuid4()\<close>, the clock and \<open>id(prompt)\<close>, in the
  order of the calls: for the new conversation, the inbound message, its append, the
  generation request, the reply and its append.
\<close>

record Fresh =
  fresh_conversation_id :: string
  fresh_conversation_created :: datetime
  fresh_conversation_updated :: datetime
  fresh_message_id :: string
  fresh_message_time :: datetime
  fresh_append_time :: datetime
  fresh_request_id :: string
  fresh_reply_id :: string
  fresh_reply_time :: datetime
  fresh_reply_append_time :: datetime

text \<open>
  \<open>_generate_response\<close>. The context handed to the generation capability is the stored
  history of the conversation (first 100 messages by timestamp); of each context message
  the model keeps role, content and timestamp. Every exception inside is logged and
  raised again.
\<close>

definition generate_response ::
  "llm_client \<Rightarrow> Conversation \<Rightarrow> Message \<Rightarrow> Fresh \<Rightarrow> World \<Rightarrow> (error + unit) \<times> World" where
  "generate_response client conversation user_message fr w =
     (let history = get_conversation_messages (conversation_id conversation) 0 100 w;
          context = map (\<lambda>m. (message_role m, message_content m, message_timestamp m)) history
      in case LLMService_generate client (fresh_request_id fr) (message_content user_message)
                context w of
           (Inl e, w1) \<Rightarrow> (Inl e, w1)
         | (Inr response, w1) \<Rightarrow>
             let assistant_message =
                   \<lparr>message_id = fresh_reply_id fr, message_role = ''assistant'',
                    message_content = response_content response,
                    message_timestamp = fresh_reply_time fr,
                    message_metadata =
                      [(''model'', case response_model response of
                                     None \<Rightarrow> PNone | Some n \<Rightarrow> PStr n),
                       (''tokens_used'', case response_tokens_used response of
                                     None \<Rightarrow> PNone | Some k \<Rightarrow> PInt k)],
                    message_conversation_id = Some (conversation_id conversation)\<rparr>;
                 w2 = create_message assistant_message w1
             in case add_message_to_conversation (conversation_id conversation)
                       assistant_message (fresh_reply_append_time fr) w2 of
                  (Inl e, w3) \<Rightarrow> (Inl e, w3)
                | (Inr assistant_message', w3) \<Rightarrow>
                    publish_new
                      (MessageProcessed (message_id user_message)
                         (Some (message_content assistant_message'))) w3)"

text \<open>
  \<open>process_message\<close>. When no conversation is found the source calls
  \<open>Conversation(metadata=metadata or {})\<close>; \<open>metadata\<close> is the one keyword of that call.
\<close>

definition process_message ::
  "string \<Rightarrow> string \<Rightarrow> string option \<Rightarrow> pydict option \<Rightarrow> Fresh \<Rightarrow> World
     \<Rightarrow> (error + Message) \<times> World" where
  "process_message content role cid metadata fr w =
     (let found =
            (case cid of
               None \<Rightarrow> None
             | Some k \<Rightarrow> if k = [] then None else map_of (conversations w) k)
      in case (case found of
                 Some c \<Rightarrow> (Inr c, w)
               | None \<Rightarrow>
                   (case dataclass_init Conversation_fields [''metadata'']
                           \<lparr>conversation_id = fresh_conversation_id fr,
                            conversation_messages = [], conversation_context = [],
                            conversation_created_at = fresh_conversation_created fr,
                            conversation_updated_at = fresh_conversation_updated fr\<rparr> of
                      Inl e \<Rightarrow> (Inl e, w)
                    | Inr c \<Rightarrow> (Inr c, create_conversation c w))) of
           (Inl e, w0) \<Rightarrow> (Inl e, w0)
         | (Inr conversation, w0) \<Rightarrow>
             let message =
                   \<lparr>message_id = fresh_message_id fr, message_role = role,
                    message_content = content, message_timestamp = fresh_message_time fr,
                    message_metadata = (case metadata of None \<Rightarrow> [] | Some m \<Rightarrow> m),
                    message_conversation_id = Some (conversation_id conversation)\<rparr>;
                 w1 = create_message message w0
             in case add_message_to_conversation (conversation_id conversation) message
                       (fresh_append_time fr) w1 of
                  (Inl e, w2) \<Rightarrow> (Inl e, w2)
                | (Inr message', w2) \<Rightarrow>
                    (case publish_new
                            (MessageReceived (message_id message') (message_role message')
                               (message_content message')
                               (Some (conversation_id conversation))) w2 of
                       (Inl e, w3) \<Rightarrow> (Inl e, w3)
                     | (Inr _, w3) \<Rightarrow>
                         if role = ''user'' then
                           (case llm_client w3 of
                              None \<Rightarrow> (Inr message', w3)
                            | Some client \<Rightarrow>
                                (case generate_response client conversation message' fr w3 of
                                   (Inl e, w4) \<Rightarrow> (Inl e, w4)
                                 | (Inr _, w4) \<Rightarrow> (Inr message', w4)))
                         else (Inr message', w3)))"

section \<open>Sample data\<close>

text \<open>Concrete values at which the theorems below are instantiated.\<close>

definition sample_time :: "nat \<Rightarrow> datetime" where
  "sample_time us =
     \<lparr>year = 2024, month = 5, day = 17, hour = 9, minute = 30, second = 0, microsecond = us\<rparr>"

definition sample_task :: "TaskStatus \<Rightarrow> Task" where
  "sample_task st =
     \<lparr>task_id = ''t1'', task_type = TaskType_CUSTOM, task_status = st,
      task_payload = [(''x'', PInt 1)], task_assigned_agent = None, task_result = None,
      task_error = None, task_metadata = [(''priority'', PInt 0)],
      task_created_at = sample_time 0, task_updated_at = sample_time 0,
      task_started_at = None, task_completed_at = None\<rparr>"

definition sample_agent :: "string \<Rightarrow> AgentStatus \<Rightarrow> pydict \<Rightarrow> Agent" where
  "sample_agent aid st caps =
     \<lparr>agent_id = aid, agent_name = ''worker'', agent_type = AgentType_TASK_EXECUTOR,
      agent_status = st, agent_capabilities = caps, agent_metadata = [],
      agent_created_at = sample_time 0, agent_updated_at = sample_time 0\<rparr>"

text \<open>
  A wired system with an event bus and an orchestrator, three agents (the first one busy)
  and one task that is already assigned; and services built without an event bus (the
  constructors' default) over empty repositories.
\<close>

definition sample_world :: World where
  "sample_world =
     \<lparr>agents = [(''a1'', sample_agent ''a1'' AgentStatus_BUSY [(''nlp'', PBool True)]),
                (''a3'', sample_agent ''a3'' AgentStatus_ACTIVE []),
                (''a2'', sample_agent ''a2'' AgentStatus_IDLE
                          [(''nlp'', PBool True), (''vision'', PBool True)])],
      tasks = [(''t1'', sample_task TaskStatus_ASSIGNED)],
      messages = [], conversations = [], event_bus = Some [],
      agent_orchestrator = True, llm_client = None\<rparr>"

definition empty_world :: World where
  "empty_world =
     \<lparr>agents = [], tasks = [], messages = [], conversations = [], event_bus = None,
      agent_orchestrator = True, llm_client = None\<rparr>"

text \<open>
  A message processor with one stored conversation and a generation client that always
  raises; \<open>bus\<close> is the event bus it was built with.
\<close>

definition sample_fresh :: Fresh where
  "sample_fresh =
     \<lparr>fresh_conversation_id = ''c9'', fresh_conversation_created = sample_time 10,
      fresh_conversation_updated = sample_time 11, fresh_message_id = ''m1'',
      fresh_message_time = sample_time 12, fresh_append_time = sample_time 13,
      fresh_request_id = ''req_1'', fresh_reply_id = ''m2'',
      fresh_reply_time = sample_time 14, fresh_reply_append_time = sample_time 15\<rparr>"

definition failing_client :: llm_client where
  "failing_client prompt context = Inl (''TimeoutError'', ''timed out'')"

definition sample_conversation :: Conversation where
  "sample_conversation =
     \<lparr>conversation_id = ''c1'', conversation_messages = [], conversation_context = [],
      conversation_created_at = sample_time 0, conversation_updated_at = sample_time 0\<rparr>"

definition chat_world :: "DomainEvent list option \<Rightarrow> World" where
  "chat_world bus =
     \<lparr>agents = [], tasks = [], messages = [], conversations = [(''c1'', sample_conversation)],
      event_bus = bus, agent_orchestrator = True, llm_client = Some failing_client\<rparr>"

definition sample_message :: Message where
  "sample_message =
     \<lparr>message_id = ''m1'', message_role = ''user'', message_content = ''hello'',
      message_timestamp = sample_time 12, message_metadata = [],
      message_conversation_id = Some ''c1''\<rparr>"

text \<open>
  Two handlers: a coroutine that awaits before it finishes and a plain function; and two
  events of one type.
\<close>

definition slow_handler :: Handler where
  "slow_handler = \<lparr>handler_name = ''h1'', handler_raises = False, handler_suspends = True\<rparr>"

definition plain_handler :: Handler where
  "plain_handler = \<lparr>handler_name = ''h2'', handler_raises = False, handler_suspends = False\<rparr>"

definition event1 :: DomainEvent where
  "event1 = TaskAssigned ''t1'' ''a1''"

definition event2 :: DomainEvent where
  "event2 = TaskAssigned ''t2'' ''a1''"

section \<open>Task status transitions\<close>

text \<open>
  C1 (as the code has it). The transition methods permit the edges CREATED \<rightarrow> ASSIGNED
  (\<open>assign_to\<close>), CREATED or ASSIGNED \<rightarrow> IN_PROGRESS (\<open>start\<close>), IN_PROGRESS \<rightarrow> COMPLETED
  (\<open>complete\<close>), non-terminal \<rightarrow> FAILED (\<open>fail\<close>) and non-terminal \<rightarrow> CANCELLED
  (\<open>cancel\<close>). On any other status \<open>assign_to\<close>, \<open>start\<close>, \<open>complete\<close> and \<open>cancel\<close> raise
  \<open>ValueError\<close> and leave the task unchanged; in particular these four calls fail on every
  terminal status (COMPLETED, FAILED, CANCELLED) and leave the task unchanged.
\<close>

theorem task_transition_edges:
  "(task_status t = TaskStatus_CREATED \<longrightarrow>
      fst (assign_to a n t) = Inr () \<and> task_status (snd (assign_to a n t)) = TaskStatus_ASSIGNED)
   \<and> (task_status t \<noteq> TaskStatus_CREATED \<longrightarrow> assign_to a n t = (Inl ValueError, t))
   \<and> (task_status t = TaskStatus_CREATED \<or> task_status t = TaskStatus_ASSIGNED \<longrightarrow>
      fst (start n1 n2 t) = Inr () \<and> task_status (snd (start n1 n2 t)) = TaskStatus_IN_PROGRESS)
   \<and> (task_status t \<noteq> TaskStatus_CREATED \<and> task_status t \<noteq> TaskStatus_ASSIGNED \<longrightarrow>
      start n1 n2 t = (Inl ValueError, t))
   \<and> (task_status t = TaskStatus_IN_PROGRESS \<longrightarrow>
      fst (complete r n1 n2 t) = Inr () \<and> task_status (snd (complete r n1 n2 t)) = TaskStatus_COMPLETED)
   \<and> (task_status t \<noteq> TaskStatus_IN_PROGRESS \<longrightarrow> complete r n1 n2 t = (Inl ValueError, t))
   \<and> (\<not> is_completed t \<longrightarrow>
      fst (fail e n1 n2 t) = Inr () \<and> task_status (snd (fail e n1 n2 t)) = TaskStatus_FAILED)
   \<and> (\<not> is_completed t \<longrightarrow>
      fst (cancel n1 n2 t) = Inr () \<and> task_status (snd (cancel n1 n2 t)) = TaskStatus_CANCELLED)
   \<and> (is_completed t \<longrightarrow>
      assign_to a n t = (Inl ValueError, t) \<and> start n1 n2 t = (Inl ValueError, t)
      \<and> complete r n1 n2 t = (Inl ValueError, t) \<and> cancel n1 n2 t = (Inl ValueError, t))"
  by (cases "task_status t")
     (simp_all add: assign_to_def start_def complete_def fail_def cancel_def is_completed_def)

theorem task_transition_edges_witness:
  "task_status (sample_task TaskStatus_CREATED) = TaskStatus_CREATED
   \<and> task_status (snd (assign_to ''a1'' (sample_time 1) (sample_task TaskStatus_CREATED)))
       = TaskStatus_ASSIGNED
   \<and> task_status (snd (start (sample_time 1) (sample_time 2) (sample_task TaskStatus_ASSIGNED)))
       = TaskStatus_IN_PROGRESS
   \<and> task_status (snd (complete [] (sample_time 1) (sample_time 2)
         (sample_task TaskStatus_IN_PROGRESS))) = TaskStatus_COMPLETED
   \<and> \<not> is_completed (sample_task TaskStatus_IN_PROGRESS)
   \<and> task_status (snd (fail ''boom'' (sample_time 1) (sample_time 2)
         (sample_task TaskStatus_IN_PROGRESS))) = TaskStatus_FAILED
   \<and> task_status (snd (cancel (sample_time 1) (sample_time 2)
         (sample_task TaskStatus_IN_PROGRESS))) = TaskStatus_CANCELLED
   \<and> is_completed (sample_task TaskStatus_COMPLETED)
   \<and> assign_to ''a1'' (sample_time 1) (sample_task TaskStatus_COMPLETED)
       = (Inl ValueError, sample_task TaskStatus_COMPLETED)
   \<and> start (sample_time 1) (sample_time 2) (sample_task TaskStatus_COMPLETED)
       = (Inl ValueError, sample_task TaskStatus_COMPLETED)
   \<and> complete [] (sample_time 1) (sample_time 2) (sample_task TaskStatus_COMPLETED)
       = (Inl ValueError, sample_task TaskStatus_COMPLETED)
   \<and> cancel (sample_time 1) (sample_time 2) (sample_task TaskStatus_COMPLETED)
       = (Inl ValueError, sample_task TaskStatus_COMPLETED)"
proof -
  have c: "task_status (sample_task st) = st" for st
    by (simp add: sample_task_def)
  have nt: "\<not> is_completed (sample_task TaskStatus_IN_PROGRESS)"
    by (simp add: is_completed_def c)
  have tm: "is_completed (sample_task TaskStatus_COMPLETED)"
    by (simp add: is_completed_def c)
  show ?thesis
    using task_transition_edges [of "sample_task TaskStatus_CREATED" "''a1''" "sample_time 1"]
      task_transition_edges [of "sample_task TaskStatus_ASSIGNED" _ _ "sample_time 1" "sample_time 2"]
      task_transition_edges [of "sample_task TaskStatus_IN_PROGRESS" _ _ "sample_time 1"
        "sample_time 2" "[]" "''boom''"]
      task_transition_edges [of "sample_task TaskStatus_COMPLETED" "''a1''" "sample_time 1"
        "sample_time 1" "sample_time 2" "[]"]
    by (simp add: c nt tm)
qed

text \<open>
  The claim as the specification words it fails on the code: \<open>start\<close> accepts a CREATED task
  (an edge CREATED \<rightarrow> IN_PROGRESS), and \<open>fail\<close> has no guard, so it succeeds on a COMPLETED
  task and changes it.
\<close>

theorem task_transition_counterexample:
  "start (sample_time 1) (sample_time 2) (sample_task TaskStatus_CREATED)
     = (Inr (), (sample_task TaskStatus_CREATED)\<lparr>task_status := TaskStatus_IN_PROGRESS,
          task_started_at := Some (sample_time 1), task_updated_at := sample_time 2\<rparr>)
   \<and> fail ''boom'' (sample_time 1) (sample_time 2) (sample_task TaskStatus_COMPLETED)
     = (Inr (), (sample_task TaskStatus_COMPLETED)\<lparr>task_status := TaskStatus_FAILED,
          task_error := Some ''boom'', task_completed_at := Some (sample_time 1),
          task_updated_at := sample_time 2\<rparr>)
   \<and> sample_task TaskStatus_COMPLETED \<noteq> (sample_task TaskStatus_COMPLETED)\<lparr>task_status := TaskStatus_FAILED,
          task_error := Some ''boom'', task_completed_at := Some (sample_time 1),
          task_updated_at := sample_time 2\<rparr>"
  by (simp add: start_def fail_def sample_task_def)


section \<open>Capability matching\<close>

lemma has_all_capabilities_names:
  "has_all_capabilities a (map PStr caps)
     = Inr (\<forall>c \<in> set caps. map_of (agent_capabilities a) c \<noteq> None)"
  by (induction caps) auto

lemma first_capable_names:
  "first_capable (map PStr caps) ags
     = Inr (find (\<lambda>a. \<forall>c \<in> set caps. map_of (agent_capabilities a) c \<noteq> None) ags)"
  by (induction ags) (auto simp: has_all_capabilities_names)

lemma find_filter: "find P (filter Q xs) = find (\<lambda>x. Q x \<and> P x) xs"
  by (induction xs) auto

text \<open>With a filter, the result is the first available agent that has every capability.\<close>

lemma find_available_agent_filter:
  assumes "caps \<noteq> []"
  shows "find_available_agent (PList (map PStr caps)) w
     = Inr (find (\<lambda>a. is_available a \<and> (\<forall>c \<in> set caps. map_of (agent_capabilities a) c \<noteq> None))
              (map snd (agents w)))"
proof -
  let ?P = "\<lambda>a. \<forall>c \<in> set caps. map_of (agent_capabilities a) c \<noteq> None"
  have "find_available_agent (PList (map PStr caps)) w = Inr (find ?P (get_available (agents w)))"
    using assms by (cases "get_available (agents w) = []")
      (simp_all add: find_available_agent_def first_capable_names Let_def)
  then show ?thesis
    by (simp add: get_available_def find_filter is_available_def)
qed

lemma find_available_agent_no_filter:
  "find_available_agent PNone w = Inr (find is_available (map snd (agents w)))"
proof -
  have "find_available_agent PNone w = Inr (find (\<lambda>_. True) (get_available (agents w)))"
    by (cases "get_available (agents w)") (simp_all add: find_available_agent_def Let_def)
  then show ?thesis
    by (simp add: get_available_def find_filter is_available_def[abs_def])
qed

text \<open>
  C6. For every repository state and every non-empty list of required capability names,
  \<open>find_available_agent\<close> returns none, or an agent of the repository that is ACTIVE or
  IDLE and whose capability mapping has every requested name as a key. Without a filter
  (\<open>None\<close>) it returns the first ACTIVE or IDLE agent in the repository's iteration order,
  and none when there is no such agent.
\<close>

theorem find_available_agent_matches:
  "(caps \<noteq> [] \<longrightarrow>
      find_available_agent (PList (map PStr caps)) w = Inr None
      \<or> (\<exists>a. find_available_agent (PList (map PStr caps)) w = Inr (Some a)
              \<and> a \<in> snd ` set (agents w)
              \<and> (agent_status a = AgentStatus_ACTIVE \<or> agent_status a = AgentStatus_IDLE)
              \<and> (\<forall>c \<in> set caps. c \<in> fst ` set (agent_capabilities a))))
   \<and> find_available_agent PNone w
       = Inr (find (\<lambda>a. agent_status a = AgentStatus_ACTIVE \<or> agent_status a = AgentStatus_IDLE)
                (map snd (agents w)))"
proof (intro conjI impI)
  assume ne: "caps \<noteq> []"
  let ?P = "\<lambda>a. is_available a \<and> (\<forall>c \<in> set caps. map_of (agent_capabilities a) c \<noteq> None)"
  show "find_available_agent (PList (map PStr caps)) w = Inr None
      \<or> (\<exists>a. find_available_agent (PList (map PStr caps)) w = Inr (Some a)
              \<and> a \<in> snd ` set (agents w)
              \<and> (agent_status a = AgentStatus_ACTIVE \<or> agent_status a = AgentStatus_IDLE)
              \<and> (\<forall>c \<in> set caps. c \<in> fst ` set (agent_capabilities a)))"
  proof (cases "find ?P (map snd (agents w))")
    case None
    then show ?thesis by (simp add: find_available_agent_filter [OF ne])
  next
    case (Some a)
    then have "a \<in> set (map snd (agents w))" and "?P a"
      by (auto simp: find_Some_iff)
    then have "a \<in> snd ` set (agents w)"
      and "agent_status a = AgentStatus_ACTIVE \<or> agent_status a = AgentStatus_IDLE"
      and "\<forall>c \<in> set caps. c \<in> fst ` set (agent_capabilities a)"
      by (auto simp: is_available_def map_of_eq_None_iff)
    with Some show ?thesis by (simp add: find_available_agent_filter [OF ne])
  qed
next
  show "find_available_agent PNone w
       = Inr (find (\<lambda>a. agent_status a = AgentStatus_ACTIVE \<or> agent_status a = AgentStatus_IDLE)
                (map snd (agents w)))"
    by (simp add: find_available_agent_no_filter is_available_def[abs_def])
qed

theorem find_available_agent_matches_witness:
  "[''nlp''] \<noteq> []
   \<and> find_available_agent (PList (map PStr [''nlp''])) sample_world
       = Inr (Some (sample_agent ''a2'' AgentStatus_IDLE
                      [(''nlp'', PBool True), (''vision'', PBool True)]))
   \<and> find_available_agent PNone sample_world
       = Inr (Some (sample_agent ''a3'' AgentStatus_ACTIVE []))"
  using find_available_agent_matches [of "[''nlp'']" sample_world]
  by (simp add: find_available_agent_def get_available_def sample_world_def sample_agent_def)

section \<open>Scheduling\<close>

text \<open>
  C7. For every task of the repository whose status is not CREATED, \<open>schedule_task\<close>
  returns the task unchanged and leaves the whole state as it is: no repository write, no
  event. A repeated call therefore gives the same result on the same state.
\<close>

theorem schedule_task_not_created:
  "map_of (tasks w) tid = Some task \<Longrightarrow> task_status task \<noteq> TaskStatus_CREATED \<Longrightarrow>
   schedule_task tid now w = (Inr (Some task), w)
   \<and> schedule_task tid now' (snd (schedule_task tid now w)) = (Inr (Some task), w)"
  by (simp add: schedule_task_def)

theorem schedule_task_not_created_witness:
  "map_of (tasks sample_world) ''t1'' = Some (sample_task TaskStatus_ASSIGNED)
   \<and> task_status (sample_task TaskStatus_ASSIGNED) \<noteq> TaskStatus_CREATED
   \<and> schedule_task ''t1'' (sample_time 1) sample_world
       = (Inr (Some (sample_task TaskStatus_ASSIGNED)), sample_world)
   \<and> schedule_task ''t1'' (sample_time 2) (snd (schedule_task ''t1'' (sample_time 1) sample_world))
       = (Inr (Some (sample_task TaskStatus_ASSIGNED)), sample_world)"
proof -
  have m: "map_of (tasks sample_world) ''t1'' = Some (sample_task TaskStatus_ASSIGNED)"
    by (simp add: sample_world_def)
  have s: "task_status (sample_task TaskStatus_ASSIGNED) \<noteq> TaskStatus_CREATED"
    by (simp add: sample_task_def)
  from schedule_task_not_created [OF m s, of "sample_time 1" "sample_time 2"] m s
  show ?thesis by blast
qed


section \<open>Event construction\<close>

text \<open>
  Every event class fails the field-order check of \<open>@dataclass\<close>, so building an event
  raises \<open>TypeError\<close>, whatever the arguments; a service that has an event bus raises where
  it builds an event, and one without a bus skips the step. In neither case does the
  state change.
\<close>

lemma event_class_rejected:
  "non_default_after_default False (DomainEvent_fields @ event_class_fields ev) \<noteq> None"
  by (cases ev) (simp_all add: DomainEvent_fields_def required_def defaulted_def)

lemma new_event_raises: "new_event ev = Inl TypeError"
  using event_class_rejected [of ev] by (auto simp: new_event_def split: option.splits)

lemma publish_new_without_bus: "event_bus w = None \<Longrightarrow> publish_new ev w = (Inr (), w)"
  by (simp add: publish_new_def)

lemma publish_new_with_bus: "event_bus w = Some trace \<Longrightarrow> publish_new ev w = (Inl TypeError, w)"
  by (simp add: publish_new_def new_event_raises)

lemma snd_publish_new: "snd (publish_new ev w) = w"
  by (cases "event_bus w") (simp_all add: publish_new_with_bus publish_new_without_bus)

section \<open>Task creation\<close>

text \<open>
  Scheduling a CREATED task that is stored under its own id either leaves the state as it
  is, or assigns the task to some agent.
\<close>

lemma schedule_task_created:
  assumes "map_of (tasks w) tid = Some t" and "task_status t = TaskStatus_CREATED"
    and "task_id t = tid"
  shows "snd (schedule_task tid now w) = w
     \<or> (\<exists>aid. snd (schedule_task tid now w)
          = w\<lparr>tasks := AList.update tid
                 (t\<lparr>task_assigned_agent := Some aid, task_status := TaskStatus_ASSIGNED,
                    task_updated_at := now\<rparr>) (tasks w)\<rparr>)"
  using assms
  by (auto simp: schedule_task_def assign_task_to_agent_def assign_to_def Let_def
        AList.update_conv' snd_publish_new
        split: option.splits sum.splits if_splits prod.splits)

lemma create_task_state:
  assumes "TaskType_of_value ty = Some tt"
  shows "snd (create_task ty payload priority metadata uid nc nu na w)
       = w\<lparr>tasks := AList.update uid (new_task tt payload priority metadata uid nc nu) (tasks w)\<rparr>
     \<or> (agent_orchestrator w \<and> (\<exists>aid. snd (create_task ty payload priority metadata uid nc nu na w)
          = w\<lparr>tasks := AList.update uid
                 ((new_task tt payload priority metadata uid nc nu)
                    \<lparr>task_assigned_agent := Some aid, task_status := TaskStatus_ASSIGNED,
                     task_updated_at := na\<rparr>) (tasks w)\<rparr>))"
proof -
  let ?t0 = "new_task tt payload priority metadata uid nc nu"
  let ?w1 = "w\<lparr>tasks := AList.update uid ?t0 (tasks w)\<rparr>"
  have i: "task_id ?t0 = uid" and s: "task_status ?t0 = TaskStatus_CREATED"
    by (simp_all add: new_task_def)
  show ?thesis
  proof (cases "event_bus w")
    case (Some trace)
    then have "publish_new (TaskCreated uid (TaskType_value tt) payload) ?w1
        = (Inl TypeError, ?w1)"
      by (simp add: publish_new_with_bus)
    then show ?thesis
      using assms by (simp add: create_task_def Let_def i new_task_def)
  next
    case None
    then have p: "publish_new (TaskCreated uid (TaskType_value tt) payload) ?w1 = (Inr (), ?w1)"
      by (simp add: publish_new_without_bus)
    show ?thesis
    proof (cases "agent_orchestrator w")
      case False
      then show ?thesis
        using assms p by (simp add: create_task_def Let_def i new_task_def)
    next
      case True
      have m: "map_of (tasks ?w1) uid = Some ?t0"
        by (simp add: AList.update_conv')
      have c: "snd (create_task ty payload priority metadata uid nc nu na w)
          = snd (schedule_task uid na ?w1)"
        using assms True p
        by (simp add: create_task_def Let_def i new_task_def split: prod.splits sum.splits)
      show ?thesis
        using schedule_task_created [OF m s i, of na] True
        by (auto simp add: c)
    qed
  qed
qed

text \<open>
  C2 (as the code has it). \<open>create_task\<close> does not look at the payload: for every
  payload, empty or not, and every recognised task type, the Task it constructs is in
  CREATED status with the priority folded into the metadata, and it is stored in the task
  repository under its id. With an orchestrator configured, the automatic scheduling that
  follows may already have moved the stored task to ASSIGNED; with no orchestrator and no
  event bus, the call returns the new task and changes nothing else. A task type that is
  no enum value raises \<open>ValueError\<close> and leaves the state unchanged. Nothing is said here
  about the TaskCreated event: the scheduler builds it when it has an event bus, and
  building it raises (\<open>new_event_raises\<close>).
\<close>

theorem create_task_any_payload:
  "(TaskType_of_value ty = None \<longrightarrow>
      create_task ty payload priority metadata uid nc nu na w = (Inl ValueError, w))
   \<and> (TaskType_of_value ty = Some tt \<longrightarrow>
      task_status (new_task tt payload priority metadata uid nc nu) = TaskStatus_CREATED
      \<and> map_of (task_metadata (new_task tt payload priority metadata uid nc nu)) ''priority''
          = Some (PInt priority)
      \<and> (\<exists>t. map_of (tasks (snd (create_task ty payload priority metadata uid nc nu na w))) uid
                = Some t
              \<and> task_type t = tt \<and> task_payload t = payload
              \<and> task_metadata t = task_metadata (new_task tt payload priority metadata uid nc nu)
              \<and> (task_status t = TaskStatus_CREATED
                  \<or> agent_orchestrator w \<and> task_status t = TaskStatus_ASSIGNED))
      \<and> (event_bus w = None \<and> \<not> agent_orchestrator w \<longrightarrow>
            create_task ty payload priority metadata uid nc nu na w
              = (Inr (new_task tt payload priority metadata uid nc nu),
                 w\<lparr>tasks := AList.update uid
                      (new_task tt payload priority metadata uid nc nu) (tasks w)\<rparr>)))"
proof (intro conjI impI)
  assume "TaskType_of_value ty = None"
  then show "create_task ty payload priority metadata uid nc nu na w = (Inl ValueError, w)"
    by (simp add: create_task_def)
next
  show "task_status (new_task tt payload priority metadata uid nc nu) = TaskStatus_CREATED"
    by (simp add: new_task_def)
next
  show "map_of (task_metadata (new_task tt payload priority metadata uid nc nu)) ''priority''
          = Some (PInt priority)"
    by (simp add: new_task_def AList.update_conv')
next
  assume ty: "TaskType_of_value ty = Some tt"
  show "\<exists>t. map_of (tasks (snd (create_task ty payload priority metadata uid nc nu na w))) uid
                = Some t
              \<and> task_type t = tt \<and> task_payload t = payload
              \<and> task_metadata t = task_metadata (new_task tt payload priority metadata uid nc nu)
              \<and> (task_status t = TaskStatus_CREATED
                  \<or> agent_orchestrator w \<and> task_status t = TaskStatus_ASSIGNED)"
    using create_task_state [OF ty, of payload priority metadata uid nc nu na w]
    by (auto simp: AList.update_conv' new_task_def)
next
  assume "TaskType_of_value ty = Some tt" and "event_bus w = None \<and> \<not> agent_orchestrator w"
  then show "create_task ty payload priority metadata uid nc nu na w
              = (Inr (new_task tt payload priority metadata uid nc nu),
                 w\<lparr>tasks := AList.update uid
                      (new_task tt payload priority metadata uid nc nu) (tasks w)\<rparr>)"
    by (simp add: create_task_def Let_def publish_new_without_bus new_task_def)
qed

theorem create_task_any_payload_witness:
  "TaskType_of_value ''custom'' = Some TaskType_CUSTOM
   \<and> TaskType_of_value ''unknown'' = None
   \<and> create_task ''unknown'' [(''x'', PInt 1)] 0 None ''t9'' (sample_time 1) (sample_time 2)
        (sample_time 3) empty_world = (Inl ValueError, empty_world)
   \<and> (\<exists>t. map_of (tasks (snd (create_task ''custom'' [(''x'', PInt 1)] 0 None ''t9''
              (sample_time 1) (sample_time 2) (sample_time 3) empty_world))) ''t9'' = Some t
          \<and> task_payload t = [(''x'', PInt 1)])
   \<and> event_bus (empty_world\<lparr>agent_orchestrator := False\<rparr>) = None
   \<and> \<not> agent_orchestrator (empty_world\<lparr>agent_orchestrator := False\<rparr>)
   \<and> create_task ''custom'' [(''x'', PInt 1)] 0 None ''t9'' (sample_time 1) (sample_time 2)
        (sample_time 3) (empty_world\<lparr>agent_orchestrator := False\<rparr>)
       = (Inr (new_task TaskType_CUSTOM [(''x'', PInt 1)] 0 None ''t9'' (sample_time 1)
                 (sample_time 2)),
          empty_world
            \<lparr>agent_orchestrator := False,
             tasks := [(''t9'', new_task TaskType_CUSTOM [(''x'', PInt 1)] 0 None ''t9''
                                  (sample_time 1) (sample_time 2))]\<rparr>)"
proof -
  have a: "TaskType_of_value ''custom'' = Some TaskType_CUSTOM"
    and b: "TaskType_of_value ''unknown'' = None"
    by (simp_all add: TaskType_of_value_def)
  have c: "event_bus (empty_world\<lparr>agent_orchestrator := False\<rparr>) = None"
    and d: "\<not> agent_orchestrator (empty_world\<lparr>agent_orchestrator := False\<rparr>)"
    and e: "tasks empty_world = []"
    by (simp_all add: empty_world_def)
  show ?thesis
    using create_task_any_payload [where ty = "''unknown''" and payload = "[(''x'', PInt 1)]"
        and priority = 0 and metadata = None and uid = "''t9''" and nc = "sample_time 1"
        and nu = "sample_time 2" and na = "sample_time 3" and w = empty_world
        and tt = TaskType_CUSTOM]
      create_task_any_payload [where ty = "''custom''" and payload = "[(''x'', PInt 1)]"
        and priority = 0 and metadata = None and uid = "''t9''" and nc = "sample_time 1"
        and nu = "sample_time 2" and na = "sample_time 3" and w = empty_world
        and tt = TaskType_CUSTOM]
      create_task_any_payload [where ty = "''custom''" and payload = "[(''x'', PInt 1)]"
        and priority = 0 and metadata = None and uid = "''t9''" and nc = "sample_time 1"
        and nu = "sample_time 2" and na = "sample_time 3"
        and w = "empty_world\<lparr>agent_orchestrator := False\<rparr>" and tt = TaskType_CUSTOM]
      a b c d e
    by auto
qed

text \<open>
  The claim fails on the code for the empty payload: on a scheduler built without an
  event bus no error is raised and the task is stored.
\<close>

theorem create_task_empty_payload_counterexample:
  "create_task ''custom'' [] 0 None ''t9'' (sample_time 1) (sample_time 2) (sample_time 3) empty_world
     = (Inr (new_task TaskType_CUSTOM [] 0 None ''t9'' (sample_time 1) (sample_time 2)),
        empty_world\<lparr>tasks := [(''t9'', new_task TaskType_CUSTOM [] 0 None ''t9''
                                          (sample_time 1) (sample_time 2))]\<rparr>)"
  by (simp add: create_task_def TaskType_of_value_def empty_world_def new_task_def
        publish_new_def schedule_task_def find_available_agent_def get_available_def Let_def)

section \<open>Agent status updates\<close>






section \<open>Message processing\<close>

text \<open>
  Whenever no conversation is resolved (no id, an empty id, or an id that is not stored),
  \<open>process_message\<close> raises \<open>TypeError\<close> and changes nothing: \<open>Conversation\<close> has no field
  \<open>metadata\<close>.
\<close>

lemma process_message_not_found:
  assumes "cid = None \<or> cid = Some [] \<or> (\<exists>k. cid = Some k \<and> map_of (conversations w) k = None)"
  shows "process_message content role cid metadata fr w = (Inl TypeError, w)"
  using assms
  by (auto simp: process_message_def dataclass_init_def Conversation_fields_def)

text \<open>
  C3 (the code at the failing input). \<open>process_message("hello", role="user")\<close> with no
  conversation id raises \<open>TypeError\<close>; no conversation and no message are stored and no
  event is published.
\<close>

theorem process_message_without_conversation_raises:
  "process_message ''hello'' ''user'' None None sample_fresh (chat_world (Some []))
     = (Inl TypeError, chat_world (Some []))"
  by (simp add: process_message_def dataclass_init_def Conversation_fields_def)

text \<open>
  C9 (as the code has it). For a call with role \<open>user\<close>, an id that resolves to a stored
  conversation (stored under its own id, as \<open>create_conversation\<close> stores it) and a
  configured generation capability, on a processor built without an event bus: if the
  generation capability raises on the prompt and the conversation's history, the call
  raises, and the state it leaves has the inbound message stored and appended to the
  conversation. Nothing else has changed: no assistant message, and no event, since
  there is no bus. Nothing is said here about a processor with an event bus: it builds
  MessageReceived before it generates, and building it raises (\<open>new_event_raises\<close>).
\<close>

theorem process_message_generation_failure:
  fixes content :: string and k :: string and fr :: Fresh and w :: World
    and metadata :: "pydict option" and c :: Conversation and client :: llm_client
    and msg :: Message and history :: "Message list"
  defines "msg \<equiv> \<lparr>message_id = fresh_message_id fr, message_role = ''user'',
                    message_content = content, message_timestamp = fresh_message_time fr,
                    message_metadata = (case metadata of None \<Rightarrow> [] | Some m \<Rightarrow> m),
                    message_conversation_id = Some k\<rparr>"
  defines "history \<equiv> get_conversation_messages k 0 100
                        (w\<lparr>messages := AList.update (fresh_message_id fr) msg (messages w)\<rparr>)"
  assumes conv: "k \<noteq> []" "map_of (conversations w) k = Some c" "conversation_id c = k"
    and llm: "llm_client w = Some client"
    and bus: "event_bus w = None"
    and raises: "client content
                  (map (\<lambda>m. (message_role m, message_content m, message_timestamp m)) history)
                   = Inl (error_type, error_message)"
  shows "process_message content ''user'' (Some k) metadata fr w
     = (Inl GenerationError,
        w\<lparr>messages := AList.update (fresh_message_id fr) msg (messages w),
          conversations :=
            AList.update k
              (c\<lparr>conversation_messages := conversation_messages c @ [msg],
                 conversation_updated_at := fresh_append_time fr\<rparr>) (conversations w)\<rparr>)"
  using conv llm bus raises
  apply (simp add: process_message_def Let_def create_message_def add_message_to_conversation_def
      add_message_def publish_new_def generate_response_def LLMService_generate_def
      generate_failed_def msg_def[symmetric])
  apply (simp add: msg_def history_def get_conversation_messages_def generate_failed_def
      publish_new_def)
  done

theorem process_message_generation_failure_witness:
  "''c1'' \<noteq> []
   \<and> map_of (conversations (chat_world None)) ''c1'' = Some sample_conversation
   \<and> conversation_id sample_conversation = ''c1''
   \<and> llm_client (chat_world None) = Some failing_client
   \<and> event_bus (chat_world None) = None
   \<and> failing_client ''hello'' [(''user'', ''hello'', sample_time 12)]
       = Inl (''TimeoutError'', ''timed out'')
   \<and> fst (process_message ''hello'' ''user'' (Some ''c1'') None sample_fresh (chat_world None))
       = Inl GenerationError
   \<and> messages (snd (process_message ''hello'' ''user'' (Some ''c1'') None sample_fresh
        (chat_world None))) = [(''m1'', sample_message)]
   \<and> conversations (snd (process_message ''hello'' ''user'' (Some ''c1'') None sample_fresh
        (chat_world None)))
       = [(''c1'', sample_conversation
                    \<lparr>conversation_messages := [sample_message],
                     conversation_updated_at := sample_time 13\<rparr>)]"
proof -
  have a: "''c1'' \<noteq> []" by simp
  have b: "map_of (conversations (chat_world None)) ''c1'' = Some sample_conversation"
    by (simp add: chat_world_def)
  have c: "conversation_id sample_conversation = ''c1''"
    by (simp add: sample_conversation_def)
  have d: "llm_client (chat_world None) = Some failing_client"
    by (simp add: chat_world_def)
  have e: "event_bus (chat_world None) = None"
    by (simp add: chat_world_def)
  have f: "failing_client ''hello'' ctx = Inl (''TimeoutError'', ''timed out'')" for ctx
    by (simp add: failing_client_def)
  from process_message_generation_failure [OF a b c d e f, of None sample_fresh] a b c d e f
  show ?thesis
    by (simp add: sample_fresh_def sample_message_def sample_conversation_def chat_world_def)
qed

text \<open>
  The claim fails on the code when the processor was built without an event bus (the
  constructor's default): generation raises, the exception reaches the caller, and no
  MessageReceived has been published anywhere.
\<close>

theorem process_message_generation_failure_counterexample:
  "process_message ''hello'' ''user'' (Some ''c1'') None sample_fresh (chat_world None)
     = (Inl GenerationError,
        (chat_world None)
          \<lparr>messages := [(''m1'', sample_message)],
           conversations :=
             [(''c1'', sample_conversation
                        \<lparr>conversation_messages := [sample_message],
                         conversation_updated_at := sample_time 13\<rparr>)]\<rparr>)
   \<and> event_bus (chat_world None) = None"
  by (simp add: process_message_def Let_def create_message_def add_message_to_conversation_def
      add_message_def publish_new_def generate_response_def LLMService_generate_def
      generate_failed_def sample_fresh_def sample_message_def sample_conversation_def
      chat_world_def failing_client_def get_conversation_messages_def)

section \<open>Serialisation round trip\<close>

lemma digit_val_digit_char: "d < 10 \<Longrightarrow> digit_val (digit_char d) = Some d"
  by (simp add: digit_val_def digit_char_def)

lemma length_zero_pad [simp]: "length (zero_pad k n) = k"
  by (induction k arbitrary: n) simp_all

lemma parse_digits_append:
  "parse_digits acc (xs @ ys)
     = (case parse_digits acc xs of None \<Rightarrow> None | Some a \<Rightarrow> parse_digits a ys)"
  by (induction xs arbitrary: acc) (simp_all split: option.splits)

lemma parse_digits_zero_pad:
  "parse_digits acc (zero_pad k n) = Some (acc * 10 ^ k + n mod 10 ^ k)"
proof (induction k arbitrary: n)
  case 0
  show ?case by simp
next
  case (Suc k)
  have "10 * (n div 10 mod 10 ^ k) + n mod 10 = n mod (10 * 10 ^ k)"
    by (metis mod_mult2_eq)
  then show ?case
    by (simp add: parse_digits_append Suc digit_val_digit_char algebra_simps)
qed

lemma take_number_zero_pad:
  "n < 10 ^ k \<Longrightarrow> take_number k (zero_pad k n @ rest) = Some (n, rest)"
  by (simp add: take_number_def parse_digits_zero_pad)

lemma take_number_zero_pad_end:
  "n < 10 ^ k \<Longrightarrow> take_number k (zero_pad k n) = Some (n, [])"
  using take_number_zero_pad [of n k "[]"] by simp

lemma expect_Cons [simp]: "expect c (c # rest) = Some rest"
  by (simp add: expect_def)

lemma valid_bounds:
  assumes "valid_datetime d"
  shows "year d < 10000" "month d < 100" "day d < 100" "hour d < 100"
    "minute d < 100" "second d < 100" "microsecond d < 1000000"
proof -
  have "day d \<le> 31"
    using assms by (simp add: valid_datetime_def days_in_month_def split: if_splits)
  then show "day d < 100" by simp
qed (use assms in \<open>simp_all add: valid_datetime_def\<close>)

lemma datetime_rebuild:
  "\<lparr>year = year d, month = month d, day = day d, hour = hour d, minute = minute d,
    second = second d, microsecond = microsecond d\<rparr> = (d :: datetime)"
  by simp

lemma isoformat_roundtrip:
  assumes "valid_datetime d"
  shows "fromisoformat (isoformat d) = Some d"
proof -
  have "fromisoformat (isoformat d)
      = (let d' = \<lparr>year = year d, month = month d, day = day d, hour = hour d,
                   minute = minute d, second = second d, microsecond = microsecond d\<rparr>
         in if valid_datetime d' then Some d' else None)"
    unfolding fromisoformat_def isoformat_def
    by (cases "microsecond d = 0")
      (simp_all add: take_number_zero_pad take_number_zero_pad_end valid_bounds [OF assms])
  then show ?thesis
    using assms by (simp only: datetime_rebuild Let_def if_True)
qed

lemma isoformat_nonempty: "isoformat d \<noteq> []"
  by (simp add: isoformat_def)

lemma TaskType_roundtrip: "TaskType_of_value (TaskType_value m) = Some m"
  by (cases m) (simp_all add: TaskType_of_value_def)

lemma TaskStatus_roundtrip: "TaskStatus_of_value (TaskStatus_value m) = Some m"
  by (cases m) (simp_all add: TaskStatus_of_value_def)

lemma parse_datetime_roundtrip:
  "valid_datetime d \<Longrightarrow> parse_datetime (PStr (isoformat d)) = Inr d"
  by (simp add: isoformat_roundtrip)

lemma optional_datetime_roundtrip:
  "(\<forall>d. x = Some d \<longrightarrow> valid_datetime d) \<Longrightarrow>
   optional_datetime (Some (case x of None \<Rightarrow> PNone | Some d \<Rightarrow> PStr (isoformat d))) = Inr x"
  by (cases x) (simp_all add: optional_datetime_def isoformat_nonempty isoformat_roundtrip and_then_def)

lemma as_optional_str_roundtrip:
  "as_optional_str (case x of None \<Rightarrow> PNone | Some a \<Rightarrow> PStr a) = Inr x"
  by (cases x) simp_all

lemma as_optional_dict_roundtrip:
  "as_optional_dict (case x of None \<Rightarrow> PNone | Some a \<Rightarrow> PDict a) = Inr x"
  by (cases x) simp_all

text \<open>
  C10. For every Task (its type and status are enum members by typing; its timestamps are
  values a Python datetime can hold), \<open>Task.from_dict(t.to_dict())\<close> is \<open>t\<close>, field for
  field: id, type, status, payload, assigned agent, result, error, metadata and the four
  timestamps, the optional ones included. The defaults \<open>from_dict\<close> computes play no part.
\<close>

theorem from_dict_to_dict:
  assumes "valid_datetime (task_created_at t)" and "valid_datetime (task_updated_at t)"
    and "\<forall>d. task_started_at t = Some d \<longrightarrow> valid_datetime d"
    and "\<forall>d. task_completed_at t = Some d \<longrightarrow> valid_datetime d"
  shows "from_dict (to_dict t) uid now1 now2 = Inr t"
proof -
  have "from_dict (to_dict t) uid now1 now2
      = Inr \<lparr>task_id = task_id t, task_type = task_type t, task_status = task_status t,
          task_payload = task_payload t, task_assigned_agent = task_assigned_agent t,
          task_result = task_result t, task_error = task_error t,
          task_metadata = task_metadata t, task_created_at = task_created_at t,
          task_updated_at = task_updated_at t, task_started_at = task_started_at t,
          task_completed_at = task_completed_at t\<rparr>"
    using assms
    by (simp add: from_dict_def to_dict_def get_or_def and_then_def TaskType_roundtrip
          TaskStatus_roundtrip parse_datetime_roundtrip optional_datetime_roundtrip
          as_optional_str_roundtrip as_optional_dict_roundtrip del: parse_datetime.simps)
  then show ?thesis by simp
qed

theorem from_dict_to_dict_witness:
  "valid_datetime (sample_time 0) \<and> valid_datetime (sample_time 250)
   \<and> from_dict
        (to_dict ((sample_task TaskStatus_IN_PROGRESS)
           \<lparr>task_assigned_agent := Some ''a1'', task_started_at := Some (sample_time 250)\<rparr>))
        ''fresh-id'' (sample_time 7) (sample_time 8)
      = Inr ((sample_task TaskStatus_IN_PROGRESS)
           \<lparr>task_assigned_agent := Some ''a1'', task_started_at := Some (sample_time 250)\<rparr>)"
proof -
  have v: "valid_datetime (sample_time 0)" "valid_datetime (sample_time 250)"
    by (simp_all add: valid_datetime_def days_in_month_def sample_time_def)
  let ?t = "(sample_task TaskStatus_IN_PROGRESS)
           \<lparr>task_assigned_agent := Some ''a1'', task_started_at := Some (sample_time 250)\<rparr>"
  have c: "valid_datetime (task_created_at ?t)" and u: "valid_datetime (task_updated_at ?t)"
    and s: "\<forall>d. task_started_at ?t = Some d \<longrightarrow> valid_datetime d"
    and e: "\<forall>d. task_completed_at ?t = Some d \<longrightarrow> valid_datetime d"
    using v by (simp_all add: sample_task_def)
  from from_dict_to_dict [OF c u s e, of "''fresh-id''" "sample_time 7" "sample_time 8"] v
  show ?thesis by blast
qed


section \<open>Event bus: deferred delivery and shutdown\<close>

text \<open>
  When no deferred handler suspends, a task that is resumed empties the queue in one go,
  so the number of tasks makes no difference.
\<close>

lemma deferred_calls_append:
  "calls b' = calls b @ cs \<Longrightarrow>
   deferred_calls b' = deferred_calls b @ map snd (filter (\<lambda>c. fst c = Deferred) cs)"
  by (simp add: deferred_calls_def)

lemma run_deferred_atomic:
  assumes "\<forall>h \<in> set hs. \<not> handler_suspends h"
  shows "fst (run_deferred e hs k b) = None
    \<and> async_handlers (snd (run_deferred e hs k b)) = async_handlers b
    \<and> event_queue (snd (run_deferred e hs k b)) = event_queue b
    \<and> consumers (snd (run_deferred e hs k b)) = consumers b
    \<and> calls (snd (run_deferred e hs k b))
        = calls b @ map (\<lambda>h. (Deferred, handler_name h, e)) hs"
  using assms
  by (induction hs arbitrary: k b) (simp_all add: Let_def begin_call_def end_call_def)

lemma consume_queue_atomic:
  assumes "no_suspension (async_handlers b)"
  shows "fst (consume_queue q b) = Waiting
    \<and> async_handlers (snd (consume_queue q b)) = async_handlers b
    \<and> consumers (snd (consume_queue q b)) = consumers b
    \<and> event_queue (snd (consume_queue q b)) = (if q = [] then event_queue b else [])
    \<and> deferred_calls (snd (consume_queue q b))
        = deferred_calls b @ deliveries (async_handlers b) q"
  using assms
proof (induction q arbitrary: b)
  case Nil
  show ?case by (simp add: deliveries_def)
next
  case (Cons e q)
  define hs where "hs = registered (async_handlers b) (event_type e)"
  define r where "r = run_deferred e hs 0 (b\<lparr>event_queue := q\<rparr>)"
  define b1 where "b1 = (snd r)\<lparr>unfinished_tasks := unfinished_tasks (snd r) - 1\<rparr>"
  have ns: "\<forall>h \<in> set hs. \<not> handler_suspends h"
    using Cons.prems by (simp add: no_suspension_def hs_def)
  have rd: "fst r = None" "async_handlers (snd r) = async_handlers b"
    "event_queue (snd r) = q" "consumers (snd r) = consumers b"
    "calls (snd r) = calls b @ map (\<lambda>h. (Deferred, handler_name h, e)) hs"
    using run_deferred_atomic [OF ns, of e 0 "b\<lparr>event_queue := q\<rparr>"]
    by (simp_all add: r_def)
  have step: "consume_queue (e # q) b = consume_queue q b1"
    using rd(1) by (cases r) (simp add: b1_def r_def [symmetric] hs_def [symmetric])
  have reg: "async_handlers b1 = async_handlers b" and con: "consumers b1 = consumers b"
    and qu: "event_queue b1 = q"
    using rd by (simp_all add: b1_def)
  have dc: "deferred_calls b1 = deferred_calls b @ map (\<lambda>h. (handler_name h, e)) hs"
    using rd(5) by (simp add: deferred_calls_def b1_def filter_map comp_def)
  have ns1: "no_suspension (async_handlers b1)"
    using Cons.prems reg by simp
  note ih = Cons.IH [OF ns1]
  have dl: "deliveries (async_handlers b) (e # q)
      = map (\<lambda>h. (handler_name h, e)) hs @ deliveries (async_handlers b) q"
    by (simp add: deliveries_def hs_def)
  show ?case
    unfolding step using ih by (simp add: reg con qu dc dl)
qed

lemma run_immediate_frame:
  "async_handlers (run_immediate e hs b) = async_handlers b
   \<and> event_queue (run_immediate e hs b) = event_queue b
   \<and> unfinished_tasks (run_immediate e hs b) = unfinished_tasks b
   \<and> consumers (run_immediate e hs b) = consumers b
   \<and> deferred_calls (run_immediate e hs b) = deferred_calls b"
  by (induction hs arbitrary: b)
     (simp_all add: begin_call_def end_call_def deferred_calls_def)

lemma publish_frame:
  "async_handlers (publish e b) = async_handlers b
   \<and> consumers (publish e b) = consumers b
   \<and> deferred_calls (publish e b) = deferred_calls b
   \<and> event_queue (publish e b)
       = event_queue b @ (if map_of (async_handlers b) (event_type e) = None then [] else [e])"
  using run_immediate_frame [of e _ b]
  by (auto simp: publish_def Let_def deferred_calls_def split: option.splits)

lemma deliveries_Nil [simp]: "deliveries reg [] = []"
  by (simp add: deliveries_def)

lemma deliveries_append: "deliveries reg (xs @ ys) = deliveries reg xs @ deliveries reg ys"
  by (simp add: deliveries_def)

lemma deliveries_unregistered:
  "map_of reg (event_type e) = None \<Longrightarrow> deliveries reg [e] = []"
  by (simp add: deliveries_def registered_def)



lemma resume_live:
  assumes ns: "no_suspension (async_handlers b)" and i: "i < length (consumers b)"
    and live: "consumers b ! i = Created \<or> consumers b ! i = Waiting"
  shows "async_handlers (resume i b) = async_handlers b"
    and "consumers (resume i b) = (consumers b)[i := Waiting]"
    and "event_queue (resume i b) = []"
    and "deferred_calls (resume i b)
          = deferred_calls b @ deliveries (async_handlers b) (event_queue b)"
proof -
  define b0 where "b0 = (if consumers b ! i = Created then b\<lparr>processing := True\<rparr> else b)"
  define r where "r = consume_queue (event_queue b) b0"
  have f: "async_handlers b0 = async_handlers b" "consumers b0 = consumers b"
    "event_queue b0 = event_queue b" "deferred_calls b0 = deferred_calls b"
    by (simp_all add: b0_def deferred_calls_def)
  have ns0: "no_suspension (async_handlers b0)" using ns f by simp
  have cq: "fst r = Waiting" "async_handlers (snd r) = async_handlers b"
    "consumers (snd r) = consumers b" "event_queue (snd r) = []"
    "deferred_calls (snd r) = deferred_calls b @ deliveries (async_handlers b) (event_queue b)"
    using consume_queue_atomic [OF ns0, of "event_queue b"] f by (simp_all add: r_def)
  have res: "resume i b = (snd r)\<lparr>consumers := (consumers (snd r))[i := fst r]\<rparr>"
    using i live by (auto simp: resume_def r_def b0_def split_beta)
  show "async_handlers (resume i b) = async_handlers b"
    and "consumers (resume i b) = (consumers b)[i := Waiting]"
    and "event_queue (resume i b) = []"
    and "deferred_calls (resume i b)
          = deferred_calls b @ deliveries (async_handlers b) (event_queue b)"
    using cq by (simp_all add: res deferred_calls_def)
qed

lemma resume_other:
  assumes "\<not> (i < length (consumers b) \<and> (consumers b ! i = Created \<or> consumers b ! i = Waiting))"
    and "\<forall>c \<in> set (consumers b). idle c"
  shows "resume i b = b"
proof (cases "i < length (consumers b)")
  case False
  then show ?thesis by (simp add: resume_def)
next
  case True
  then have "idle (consumers b ! i)" using assms(2) by simp
  with assms(1) True have "consumers b ! i = Finished"
    by (cases "consumers b ! i") (simp_all add: idle_def)
  with True show ?thesis by (simp add: resume_def list_update_same_conv)
qed

lemma idle_update:
  "\<forall>c \<in> set cs. idle c \<Longrightarrow> idle c' \<Longrightarrow> \<forall>c \<in> set (cs[i := c']). idle c"
  by (metis insert_iff set_update_subset_insert subsetD)

lemma act_invariant:
  assumes ns: "no_suspension (async_handlers b)" and idle: "\<forall>c \<in> set (consumers b). idle c"
    and a: "no_subscribe [a]"
  shows "async_handlers (act a b) = async_handlers b
    \<and> (\<forall>c \<in> set (consumers (act a b)). idle c)
    \<and> deferred_calls (act a b) @ deliveries (async_handlers b) (event_queue (act a b))
        = deferred_calls b @ deliveries (async_handlers b) (event_queue b)
          @ deliveries (async_handlers b) (published [a])"
proof (cases a)
  case (Subscribe ty h ap)
  then show ?thesis using a by (simp add: no_subscribe_def)
next
  case (Publish e)
  show ?thesis
    using publish_frame [of e b] idle
    by (auto simp: Publish published_def deliveries_append deliveries_unregistered)
next
  case (Resume i)
  show ?thesis
  proof (cases "i < length (consumers b) \<and> (consumers b ! i = Created \<or> consumers b ! i = Waiting)")
    case True
    then have i: "i < length (consumers b)"
      and live: "consumers b ! i = Created \<or> consumers b ! i = Waiting" by simp_all
    show ?thesis
      using resume_live [OF ns i live] idle_update [OF idle, of Waiting i]
      by (simp add: Resume published_def deliveries_def idle_def)
  next
    case False
    show ?thesis
      using resume_other [OF False idle] idle
      by (simp add: Resume published_def deliveries_def)
  qed
qed

lemma run_invariant:
  assumes "no_suspension (async_handlers b)" and "\<forall>c \<in> set (consumers b). idle c"
    and "no_subscribe acts"
  shows "async_handlers (run acts b) = async_handlers b
    \<and> (\<forall>c \<in> set (consumers (run acts b)). idle c)
    \<and> deferred_calls (run acts b) @ deliveries (async_handlers b) (event_queue (run acts b))
        = deferred_calls b @ deliveries (async_handlers b) (event_queue b)
          @ deliveries (async_handlers b) (published acts)"
  using assms
proof (induction acts arbitrary: b)
  case Nil
  then show ?case by (simp add: run_def published_def deliveries_def)
next
  case (Cons a acts)
  have a: "no_subscribe [a]" and rest: "no_subscribe acts"
    using Cons.prems(3) by (simp_all add: no_subscribe_def)
  note st = act_invariant [OF Cons.prems(1,2) a]
  have ns: "no_suspension (async_handlers (act a b))" using st Cons.prems(1) by simp
  have idl: "\<forall>c \<in> set (consumers (act a b)). idle c" using st by simp
  note ih = Cons.IH [OF ns idl rest]
  have r: "run (a # acts) b = run acts (act a b)" by (simp add: run_def)
  have p: "published (a # acts) = published [a] @ published acts"
    by (simp add: published_def)
  show ?case
    unfolding r p using ih st by (simp add: deliveries_append)
qed


lemma act_live:
  assumes "no_suspension (async_handlers b)" and "\<forall>c \<in> set (consumers b). idle c"
    and "no_subscribe [a]" and "i < length (consumers b)" and "consumers b ! i \<noteq> Finished"
  shows "i < length (consumers (act a b)) \<and> consumers (act a b) ! i \<noteq> Finished"
proof (cases a)
  case (Subscribe ty h ap)
  then show ?thesis using assms(3) by (simp add: no_subscribe_def)
next
  case (Publish e)
  then show ?thesis using publish_frame [of e b] assms(4,5) by simp
next
  case (Resume j)
  show ?thesis
  proof (cases "j < length (consumers b) \<and> (consumers b ! j = Created \<or> consumers b ! j = Waiting)")
    case True
    then have j: "j < length (consumers b)"
      and live: "consumers b ! j = Created \<or> consumers b ! j = Waiting" by simp_all
    show ?thesis
      using resume_live(2) [OF assms(1) j live] assms(4,5) j
      by (cases "i = j") (simp_all add: Resume)
  next
    case False
    show ?thesis
      using resume_other [OF False assms(2)] assms(4,5) by (simp add: Resume)
  qed
qed

lemma run_live:
  assumes "no_suspension (async_handlers b)" and "\<forall>c \<in> set (consumers b). idle c"
    and "no_subscribe acts" and "i < length (consumers b)" and "consumers b ! i \<noteq> Finished"
  shows "i < length (consumers (run acts b)) \<and> consumers (run acts b) ! i \<noteq> Finished"
  using assms
proof (induction acts arbitrary: b)
  case Nil
  then show ?case by (simp add: run_def)
next
  case (Cons a acts)
  have a: "no_subscribe [a]" and rest: "no_subscribe acts"
    using Cons.prems(3) by (simp_all add: no_subscribe_def)
  note st = act_invariant [OF Cons.prems(1,2) a]
  note lv = act_live [OF Cons.prems(1,2) a Cons.prems(4,5)]
  have ns: "no_suspension (async_handlers (act a b))" using st Cons.prems(1) by simp
  have idl: "\<forall>c \<in> set (consumers (act a b)). idle c" using st by simp
  have r: "run (a # acts) b = run acts (act a b)" by (simp add: run_def)
  show ?case
    unfolding r using Cons.IH [OF ns idl rest] lv by simp
qed

lemma deliveries_one_type:
  assumes "\<forall>e \<in> set es. event_type e = ty"
  shows "deliveries [(ty, hs)] es = concat (map (\<lambda>e. map (\<lambda>h. (handler_name h, e)) hs) es)"
  using assms by (induction es) (simp_all add: deliveries_def registered_def)

lemma length_product:
  "length (concat (map (\<lambda>e. map (\<lambda>h. (handler_name h, e)) hs) es)) = length hs * length es"
  by (induction es) simp_all

lemma filter_one_handler:
  assumes "distinct (map handler_name hs)" and "h \<in> set hs"
  shows "filter (\<lambda>c. fst c = handler_name h) (map (\<lambda>h. (handler_name h, e)) hs)
     = [(handler_name h, e)]"
  using assms
proof (induction hs)
  case Nil
  then show ?case by simp
next
  case (Cons g hs)
  show ?case
  proof (cases "g = h")
    case True
    have "handler_name h \<notin> handler_name ` set hs" using Cons.prems(1) True by simp
    then have "filter (\<lambda>c. fst c = handler_name h) (map (\<lambda>h. (handler_name h, e)) hs) = []"
      by (induction hs) auto
    then show ?thesis using True by simp
  next
    case False
    then have "h \<in> set hs" using Cons.prems(2) by simp
    then have "handler_name g \<noteq> handler_name h" using Cons.prems(1) by auto
    then show ?thesis using Cons \<open>h \<in> set hs\<close> by simp
  qed
qed

lemma events_of_one_handler:
  assumes "distinct (map handler_name hs)" and "h \<in> set hs"
  shows "map snd (filter (\<lambda>c. fst c = handler_name h)
            (concat (map (\<lambda>e. map (\<lambda>h. (handler_name h, e)) hs) es))) = es"
  by (induction es) (simp_all add: filter_one_handler [OF assms])

text \<open>
  Deferred delivery when no handler suspends. From a bus with \<open>M\<close> deferred handlers for
  one event type, an empty queue and a live consumer task, after any interleaving of
  publishing \<open>N\<close> events of that type and resuming tasks, one more resumption of the live
  task leaves exactly the \<open>M \<times> N\<close> invocations, event by event in publish order; each
  handler has seen the events in publish order, whether or not handlers raise.
\<close>

lemma deferred_delivery_without_suspension:
  assumes reg: "async_handlers b = [(ty, hs)]" and ns: "\<forall>h \<in> set hs. \<not> handler_suspends h"
    and start: "event_queue b = []" "calls b = []" "\<forall>c \<in> set (consumers b). idle c"
    and live: "i < length (consumers b)" "consumers b ! i \<noteq> Finished"
    and acts: "no_subscribe acts" "\<forall>e \<in> set (published acts). event_type e = ty"
  shows "deferred_calls (resume i (run acts b))
       = concat (map (\<lambda>e. map (\<lambda>h. (handler_name h, e)) hs) (published acts))"
    and "length (deferred_calls (resume i (run acts b))) = length hs * length (published acts)"
    and "distinct (map handler_name hs) \<Longrightarrow> h \<in> set hs \<Longrightarrow>
         map snd (filter (\<lambda>c. fst c = handler_name h) (deferred_calls (resume i (run acts b))))
           = published acts"
proof -
  have nsr: "no_suspension (async_handlers b)"
    using ns by (auto simp: no_suspension_def reg registered_def)
  note inv = run_invariant [OF nsr start(3) acts(1)]
  note lv = run_live [OF nsr start(3) acts(1) live]
  let ?b = "run acts b"
  have nsb: "no_suspension (async_handlers ?b)" using inv nsr by simp
  have idl: "\<forall>c \<in> set (consumers ?b). idle c" using inv by simp
  have i: "i < length (consumers ?b)" using lv by simp
  have "idle (consumers ?b ! i)" using idl i by simp
  with lv have l: "consumers ?b ! i = Created \<or> consumers ?b ! i = Waiting"
    by (cases "consumers ?b ! i") (simp_all add: idle_def)
  have "deferred_calls (resume i ?b)
      = deferred_calls ?b @ deliveries (async_handlers b) (event_queue ?b)"
    using resume_live(4) [OF nsb i l] inv by simp
  also have "\<dots> = deliveries (async_handlers b) (published acts)"
    using inv start by (simp add: deferred_calls_def)
  finally show main: "deferred_calls (resume i (run acts b))
       = concat (map (\<lambda>e. map (\<lambda>h. (handler_name h, e)) hs) (published acts))"
    by (simp add: reg deliveries_one_type [OF acts(2)])
  show "length (deferred_calls (resume i (run acts b))) = length hs * length (published acts)"
    by (simp only: main length_product)
  show "map snd (filter (\<lambda>c. fst c = handler_name h) (deferred_calls (resume i (run acts b))))
           = published acts"
    if "distinct (map handler_name hs)" "h \<in> set hs"
    by (simp only: main events_of_one_handler [OF that])
qed

text \<open>
  C8 (the code at the failing input). Two deferred subscriptions made one after the other
  create two consumer tasks, because \<open>_processing\<close> is still false at the second
  \<open>subscribe\<close>. Two events are published. The first task takes the first event and is
  suspended inside the first handler; the second task takes the second event, is suspended
  inside the first handler too, is resumed first and calls the second handler with the
  second event before the first task calls it with the first event. The four invocations
  all occur, but the second handler sees the events against the publish order.
\<close>

theorem deferred_delivery_out_of_order:
  "consumers (run [Subscribe ''TaskAssigned'' slow_handler True,
                   Subscribe ''TaskAssigned'' plain_handler True] EventBus_init)
     = [Created, Created]
   \<and> calls (run [Subscribe ''TaskAssigned'' slow_handler True,
                 Subscribe ''TaskAssigned'' plain_handler True,
                 Publish event1, Publish event2,
                 Resume 0, Resume 1, Resume 1, Resume 0] EventBus_init)
     = [(Deferred, ''h1'', event1), (Deferred, ''h1'', event2),
        (Deferred, ''h2'', event2), (Deferred, ''h2'', event1)]"
  by code_simp

text \<open>
  C5 (the code at the failing input). One consumer task is running (\<open>_processing\<close> is
  true); an event is published, the task takes it off the queue and is suspended inside
  the first of its two handlers. \<open>stop\<close> cancels the task, finds the queue empty and
  returns: the second handler was never called with the event.
\<close>

theorem stop_returns_before_delivery:
  "processing (run [Subscribe ''TaskAssigned'' slow_handler True, Resume 0,
                    Subscribe ''TaskAssigned'' plain_handler True,
                    Publish event1, Resume 0] EventBus_init)
   \<and> fst (stop (run [Subscribe ''TaskAssigned'' slow_handler True, Resume 0,
                     Subscribe ''TaskAssigned'' plain_handler True,
                     Publish event1, Resume 0] EventBus_init)) = Returned
   \<and> calls (snd (stop (run [Subscribe ''TaskAssigned'' slow_handler True, Resume 0,
                     Subscribe ''TaskAssigned'' plain_handler True,
                     Publish event1, Resume 0] EventBus_init)))
     = [(Deferred, ''h1'', event1)]"
  by code_simp

text \<open>
  Two more runs of \<open>stop\<close>. Called before the consumer task has run for the first time, it
  returns at once and leaves the event in the queue, undelivered. Called while the task
  waits and an event has just been enqueued, it cancels the only consumer and then waits in
  \<open>join()\<close> for an event that nothing will deliver.
\<close>

lemma stop_before_first_run:
  "stop (run [Subscribe ''TaskAssigned'' plain_handler True, Publish event1] EventBus_init)
     = (Returned,
        run [Subscribe ''TaskAssigned'' plain_handler True, Publish event1] EventBus_init)
   \<and> event_queue (run [Subscribe ''TaskAssigned'' plain_handler True, Publish event1]
        EventBus_init) = [event1]"
  by code_simp

lemma stop_with_pending_event:
  "fst (stop (run [Subscribe ''TaskAssigned'' plain_handler True, Resume 0, Publish event1]
          EventBus_init)) = WaitingInJoin
   \<and> consumers (snd (stop (run [Subscribe ''TaskAssigned'' plain_handler True, Resume 0,
          Publish event1] EventBus_init))) = [Finished]"
  by code_simp

end
